theory Spec2Isabelle
  imports Main
begin

unbundle bit_operations_syntax

section \<open>Strings\<close>

text \<open>
  JavaScript strings are modelled as \<^typ>\<open>string\<close>. The gateway's fields (merchant id,
  order id, currency code, status code, signature, e-mail address) are ASCII text, and the
  string operations below are the ASCII part of the ECMAScript ones: \<open>trim\<close> removes TAB, LF,
  VT, FF, CR and SPACE from both ends, \<open>toUpperCase\<close> and \<open>toLowerCase\<close> map the 26
  letters and leave every other character alone.
\<close>

definition is_ws :: "char \<Rightarrow> bool" where
  "is_ws c = (c \<in> set [CHR 0x09, CHR 0x0A, CHR 0x0B, CHR 0x0C, CHR 0x0D, CHR '' ''])"

definition trim :: "string \<Rightarrow> string" where
  "trim s = rev (dropWhile is_ws (rev (dropWhile is_ws s)))"

definition upper_char :: "char \<Rightarrow> char" where
  "upper_char c =
     (case map_of (zip ''abcdefghijklmnopqrstuvwxyz'' ''ABCDEFGHIJKLMNOPQRSTUVWXYZ'') c of
        Some u \<Rightarrow> u | None \<Rightarrow> c)"

definition lower_char :: "char \<Rightarrow> char" where
  "lower_char c =
     (case map_of (zip ''ABCDEFGHIJKLMNOPQRSTUVWXYZ'' ''abcdefghijklmnopqrstuvwxyz'') c of
        Some l \<Rightarrow> l | None \<Rightarrow> c)"

definition toUpperCase :: "string \<Rightarrow> string" where
  "toUpperCase s = map upper_char s"

definition toLowerCase :: "string \<Rightarrow> string" where
  "toLowerCase s = map lower_char s"

definition startsWith :: "string \<Rightarrow> string \<Rightarrow> bool" where
  "startsWith s p = (take (length p) s = p)"

text \<open>A value spliced into a template literal: an absent field prints as \<open>undefined\<close>.\<close>

definition tmpl :: "string option \<Rightarrow> string" where
  "tmpl v = (case v of None \<Rightarrow> ''undefined'' | Some s \<Rightarrow> s)"

text \<open>
  Truthiness of an optional string field: \<open>!x\<close> holds when the field is absent or empty.
\<close>

definition truthy :: "string option \<Rightarrow> bool" where
  "truthy v = (case v of None \<Rightarrow> False | Some s \<Rightarrow> s \<noteq> [])"


section \<open>Amounts\<close>

text \<open>
  Amounts are fixed-point numbers, counted in hundredths of the currency unit: the amount
  2500 rupees is \<open>250000\<close>. On such a number \<open>parseFloat(amount).toFixed(2)\<close> prints the
  integer part, a dot and the two decimals, with a leading minus sign below zero. Amounts
  with more than two decimals, whose printing depends on binary rounding, and amounts of
  \<open>2 ^ 46\<close> units (about \<open>7e13\<close>) and more, which a double no longer holds to the hundredth,
  are outside the model. An amount that is absent parses to \<open>NaN\<close>.
\<close>

type_synonym amount = int

definition digit_char :: "nat \<Rightarrow> char" where
  "digit_char n = ''0123456789'' ! (n mod 10)"

fun decimal :: "nat \<Rightarrow> string" where
  "decimal n = (if n < 10 then [digit_char n] else decimal (n div 10) @ [digit_char n])"

declare decimal.simps [simp del]

definition toFixed2 :: "amount \<Rightarrow> string" where
  "toFixed2 a =
     (let n = nat \<bar>a\<bar>
      in (if a < 0 then ''-'' else []) @ decimal (n div 100) @ ''.'' @
         [digit_char (n div 10), digit_char n])"


section \<open>The MD5 digest\<close>

text \<open>
  Both crypto libraries the server uses (\<open>crypto.createHash('md5')\<close> of Node and
  \<open>CryptoJS.MD5\<close>) compute the MD5 digest of RFC 1321 over the bytes of the string and
  print it as 32 lower-case hexadecimal digits. 32-bit words are natural numbers below
  \<open>2 ^ 32\<close>, with the wrap-around written out.
\<close>

definition add32 :: "nat \<Rightarrow> nat \<Rightarrow> nat" where
  "add32 a b = (a + b) mod 4294967296"

definition not32 :: "nat \<Rightarrow> nat" where
  "not32 a = 4294967295 - a mod 4294967296"

definition rotl32 :: "nat \<Rightarrow> nat \<Rightarrow> nat" where
  "rotl32 s x = (x * 2 ^ s) mod 4294967296 + x div 2 ^ (32 - s)"

text \<open>The four auxiliary functions F, G, H and I of the RFC, by round number.\<close>

definition md5_f :: "nat \<Rightarrow> nat \<Rightarrow> nat \<Rightarrow> nat \<Rightarrow> nat" where
  "md5_f r b c d =
     (if r = 0 then (b AND c) OR (not32 b AND d)
      else if r = 1 then (d AND b) OR (not32 d AND c)
      else if r = 2 then b XOR c XOR d
      else c XOR (b OR not32 d))"

text \<open>
  The 64 steps: round, index of the message word, left rotation, and the
  constant \<open>floor (2 ^ 32 * abs (sin (i + 1)))\<close>.
\<close>

definition md5_sched :: "(nat \<times> nat \<times> nat \<times> nat) list" where
  "md5_sched = [
     (0, 0, 7, 3614090360), (0, 1, 12, 3905402710), (0, 2, 17, 606105819), (0, 3, 22, 3250441966),
     (0, 4, 7, 4118548399), (0, 5, 12, 1200080426), (0, 6, 17, 2821735955), (0, 7, 22, 4249261313),
     (0, 8, 7, 1770035416), (0, 9, 12, 2336552879), (0, 10, 17, 4294925233), (0, 11, 22, 2304563134),
     (0, 12, 7, 1804603682), (0, 13, 12, 4254626195), (0, 14, 17, 2792965006), (0, 15, 22, 1236535329),
     (1, 1, 5, 4129170786), (1, 6, 9, 3225465664), (1, 11, 14, 643717713), (1, 0, 20, 3921069994),
     (1, 5, 5, 3593408605), (1, 10, 9, 38016083), (1, 15, 14, 3634488961), (1, 4, 20, 3889429448),
     (1, 9, 5, 568446438), (1, 14, 9, 3275163606), (1, 3, 14, 4107603335), (1, 8, 20, 1163531501),
     (1, 13, 5, 2850285829), (1, 2, 9, 4243563512), (1, 7, 14, 1735328473), (1, 12, 20, 2368359562),
     (2, 5, 4, 4294588738), (2, 8, 11, 2272392833), (2, 11, 16, 1839030562), (2, 14, 23, 4259657740),
     (2, 1, 4, 2763975236), (2, 4, 11, 1272893353), (2, 7, 16, 4139469664), (2, 10, 23, 3200236656),
     (2, 13, 4, 681279174), (2, 0, 11, 3936430074), (2, 3, 16, 3572445317), (2, 6, 23, 76029189),
     (2, 9, 4, 3654602809), (2, 12, 11, 3873151461), (2, 15, 16, 530742520), (2, 2, 23, 3299628645),
     (3, 0, 6, 4096336452), (3, 7, 10, 1126891415), (3, 14, 15, 2878612391), (3, 5, 21, 4237533241),
     (3, 12, 6, 1700485571), (3, 3, 10, 2399980690), (3, 10, 15, 4293915773), (3, 1, 21, 2240044497),
     (3, 8, 6, 1873313359), (3, 15, 10, 4264355552), (3, 6, 15, 2734768916), (3, 13, 21, 1309151649),
     (3, 4, 6, 4149444226), (3, 11, 10, 3174756917), (3, 2, 15, 718787259), (3, 9, 21, 3951481745)]"

type_synonym md5_state = "nat \<times> nat \<times> nat \<times> nat"

fun md5_step :: "nat list \<Rightarrow> md5_state \<Rightarrow> nat \<times> nat \<times> nat \<times> nat \<Rightarrow> md5_state" where
  "md5_step m (a, b, c, d) (r, g, s, k) =
     (d, add32 b (rotl32 s (add32 (add32 (add32 (md5_f r b c d) a) k) (m ! g))), b, c)"

fun md5_block :: "md5_state \<Rightarrow> nat list \<Rightarrow> md5_state" where
  "md5_block (a0, b0, c0, d0) m =
     (case foldl (md5_step m) (a0, b0, c0, d0) md5_sched of
        (a, b, c, d) \<Rightarrow> (add32 a0 a, add32 b0 b, add32 c0 c, add32 d0 d))"

text \<open>Bytes to little-endian 32-bit words, and a number to its \<open>k\<close> low bytes.\<close>

fun le_words :: "nat list \<Rightarrow> nat list" where
  "le_words (b0 # b1 # b2 # b3 # bs) =
     (b0 + 256 * b1 + 65536 * b2 + 16777216 * b3) # le_words bs"
| "le_words bs = []"

fun le_bytes :: "nat \<Rightarrow> nat \<Rightarrow> nat list" where
  "le_bytes 0 v = []"
| "le_bytes (Suc k) v = v mod 256 # le_bytes k (v div 256)"

text \<open>
  Padding: the byte \<open>0x80\<close>, zeros up to 56 modulo 64, and the length in bits as 8 bytes.
\<close>

definition md5_pad :: "nat list \<Rightarrow> nat list" where
  "md5_pad bs =
     bs @ [128] @ replicate ((119 - length bs mod 64) mod 64) 0 @ le_bytes 8 (8 * length bs)"

fun md5_blocks :: "nat \<Rightarrow> md5_state \<Rightarrow> nat list \<Rightarrow> md5_state" where
  "md5_blocks 0 st ws = st"
| "md5_blocks (Suc n) st ws = md5_blocks n (md5_block st (take 16 ws)) (drop 16 ws)"

definition md5_bytes :: "nat list \<Rightarrow> nat list" where
  "md5_bytes bs =
     (let ws = le_words (md5_pad bs)
      in case md5_blocks (length ws div 16)
                (1732584193, 4023233417, 2562383102, 271733878) ws of
           (a, b, c, d) \<Rightarrow> concat (map (le_bytes 4) [a, b, c, d]))"

definition hex_digit :: "nat \<Rightarrow> char" where
  "hex_digit n = ''0123456789abcdef'' ! n"

definition md5_hex :: "string \<Rightarrow> string" where
  "md5_hex s = concat (map (\<lambda>b. [hex_digit (b div 16), hex_digit (b mod 16)])
                           (md5_bytes (map of_char s)))"


section \<open>Hash generation and verification\<close>

text \<open>\<open>generatePayHereHash\<close>, for one-time payments.\<close>

definition generatePayHereHash ::
  "string \<Rightarrow> string \<Rightarrow> amount \<Rightarrow> string \<Rightarrow> string \<Rightarrow> string" where
  "generatePayHereHash merchantId orderId amount currency merchantSecret =
     (let hashedSecret = toUpperCase (md5_hex merchantSecret);
          amountFormatted = toFixed2 amount;
          hashString = merchantId @ orderId @ amountFormatted @ currency @ hashedSecret
      in toUpperCase (md5_hex hashString))"

text \<open>\<open>generateRecurringPayHereHash\<close>, for recurring payments.\<close>

definition generateRecurringPayHereHash ::
  "string \<Rightarrow> string \<Rightarrow> amount \<Rightarrow> string \<Rightarrow> string \<Rightarrow> string" where
  "generateRecurringPayHereHash merchantId orderId amount currency merchantSecret =
     (let cleanMerchantId = trim merchantId;
          cleanOrderId = trim orderId;
          cleanAmount = toFixed2 amount;
          cleanCurrency = trim (toUpperCase currency);
          cleanSecret = trim merchantSecret;
          secretHash = toUpperCase (md5_hex cleanSecret);
          hashString = cleanMerchantId @ cleanOrderId @ cleanAmount @ cleanCurrency @ secretHash
      in toUpperCase (md5_hex hashString))"

text \<open>
  The digest construction in the words of the specification: the hashed secret first, then
  merchant id, order id, the amount with two decimals and the currency.
\<close>

definition spec_sign :: "string \<Rightarrow> string \<Rightarrow> amount \<Rightarrow> string \<Rightarrow> string \<Rightarrow> string" where
  "spec_sign merchantId orderId amount currency secret =
     toUpperCase (md5_hex (toUpperCase (md5_hex secret) @ merchantId @ orderId @
                           toFixed2 amount @ currency))"

type_synonym date = int

text \<open>
  An inbound notification. A field is \<open>None\<close> when the request body does not carry it.
  Dates are instants in milliseconds since the epoch; \<open>next_occurrence_date\<close> is the
  instant its text denotes.
\<close>

record notification =
  merchant_id :: "string option"
  order_id :: "string option"
  payment_id :: "string option"
  payhere_amount :: "amount option"
  payhere_currency :: "string option"
  status_code :: "string option"
  md5sig :: "string option"
  status_message :: "string option"
  custom_1 :: "string option"
  custom_2 :: "string option"
  email :: "string option"
  recurring_token :: "string option"
  subscription_id :: "string option"
  event_type :: "string option"
  next_occurrence_date :: "date option"

text \<open>
  \<open>verifyPayHereHash\<close>. The result is \<open>None\<close> when \<open>md5sig.toUpperCase()\<close> throws because
  the signature is absent.
\<close>

definition verifyPayHereHash :: "notification \<Rightarrow> string \<Rightarrow> bool option" where
  "verifyPayHereHash data merchantSecret =
     (let hashedSecret = toUpperCase (md5_hex merchantSecret);
          amountFormatted = (case payhere_amount data of None \<Rightarrow> ''NaN'' | Some a \<Rightarrow> toFixed2 a);
          hashString = tmpl (merchant_id data) @ tmpl (order_id data) @ amountFormatted @
                       tmpl (payhere_currency data) @ tmpl (status_code data) @ hashedSecret;
          localHash = toUpperCase (md5_hex hashString)
      in case md5sig data of
           None \<Rightarrow> None
         | Some sig \<Rightarrow> Some (localHash = toUpperCase sig))"


section \<open>Dates\<close>

text \<open>
  The time values, calendar fields and local time of ECMAScript (ECMA-262, Date objects):
  a date is an instant in milliseconds since the epoch, and \<open>getMonth\<close> and \<open>setMonth\<close>
  work on the calendar fields of the local time of the server's time zone.
\<close>

text \<open>Day number and time within the day.\<close>

definition msPerDay :: int where
  "msPerDay = 86400000"

definition Day :: "date \<Rightarrow> int" where
  "Day t = t div msPerDay"

definition TimeWithinDay :: "date \<Rightarrow> int" where
  "TimeWithinDay t = t mod msPerDay"

text \<open>Years: their length, the day number of their first day, and the year of a day.\<close>

definition DaysInYear :: "int \<Rightarrow> int" where
  "DaysInYear y =
     (if y mod 4 \<noteq> 0 then 365
      else if y mod 100 \<noteq> 0 then 366
      else if y mod 400 \<noteq> 0 then 365
      else 366)"

definition DayFromYear :: "int \<Rightarrow> int" where
  "DayFromYear y =
     365 * (y - 1970) + (y - 1969) div 4 - (y - 1901) div 100 + (y - 1601) div 400"

text \<open>
  \<open>YearFromTime\<close> is the largest year whose first day is not after the time value. It is
  computed from an estimate that is off by at most one year.
\<close>

definition YearFromDay :: "int \<Rightarrow> int" where
  "YearFromDay n =
     (let y = 1970 + (400 * n) div 146097
      in if n < DayFromYear y then y - 1
         else if DayFromYear (y + 1) \<le> n then y + 1
         else y)"

definition YearFromTime :: "date \<Rightarrow> int" where
  "YearFromTime t = YearFromDay (Day t)"

definition leapYear :: "int \<Rightarrow> int" where
  "leapYear y = (if DaysInYear y = 366 then 1 else 0)"

definition InLeapYear :: "date \<Rightarrow> int" where
  "InLeapYear t = leapYear (YearFromTime t)"

definition DayWithinYear :: "date \<Rightarrow> int" where
  "DayWithinYear t = Day t - DayFromYear (YearFromTime t)"

text \<open>Months, numbered from 0, by the day within the year and the leap-year flag.\<close>

definition monthOfDay :: "int \<Rightarrow> int \<Rightarrow> int" where
  "monthOfDay l d =
     (if d < 31 then 0
      else if d < 59 + l then 1
      else if d < 90 + l then 2
      else if d < 120 + l then 3
      else if d < 151 + l then 4
      else if d < 181 + l then 5
      else if d < 212 + l then 6
      else if d < 243 + l then 7
      else if d < 273 + l then 8
      else if d < 304 + l then 9
      else if d < 334 + l then 10
      else 11)"

definition firstDayOfMonth :: "int \<Rightarrow> int \<Rightarrow> int" where
  "firstDayOfMonth l m =
     (if m = 0 then 0
      else if m = 1 then 31
      else if m = 2 then 59 + l
      else if m = 3 then 90 + l
      else if m = 4 then 120 + l
      else if m = 5 then 151 + l
      else if m = 6 then 181 + l
      else if m = 7 then 212 + l
      else if m = 8 then 243 + l
      else if m = 9 then 273 + l
      else if m = 10 then 304 + l
      else 334 + l)"

definition MonthFromTime :: "date \<Rightarrow> int" where
  "MonthFromTime t = monthOfDay (InLeapYear t) (DayWithinYear t)"

definition DateFromTime :: "date \<Rightarrow> int" where
  "DateFromTime t =
     DayWithinYear t - firstDayOfMonth (InLeapYear t) (MonthFromTime t) + 1"

text \<open>
  \<open>MakeDay\<close>: the day number of the first day of the month, plus the day of the month
  minus one; a month outside 0 to 11 carries into the year.
\<close>

definition MakeDay :: "int \<Rightarrow> int \<Rightarrow> int \<Rightarrow> int" where
  "MakeDay year month dt =
     (let ym = year + month div 12;
          mn = month mod 12
      in DayFromYear ym + firstDayOfMonth (leapYear ym) mn + dt - 1)"

definition daysInMonth :: "int \<Rightarrow> int \<Rightarrow> int" where
  "daysInMonth l m =
     (if m = 1 then 28 + l
      else if m = 3 \<or> m = 5 \<or> m = 8 \<or> m = 10 then 30
      else 31)"

definition MakeDate :: "int \<Rightarrow> int \<Rightarrow> date" where
  "MakeDate day time = day * msPerDay + time"

text \<open>
  The time zone of the server process: the offset from UTC in force at an instant
  (\<open>LocalTZA(t, true)\<close>) and the one in force at a local time (\<open>LocalTZA(t, false)\<close>), in
  milliseconds.
\<close>

record zone =
  utcOffset :: "date \<Rightarrow> int"
  localOffset :: "date \<Rightarrow> int"

definition LocalTime :: "zone \<Rightarrow> date \<Rightarrow> date" where
  "LocalTime z t = t + utcOffset z t"

definition UTC :: "zone \<Rightarrow> date \<Rightarrow> date" where
  "UTC z t = t - localOffset z t"

text \<open>\<open>Date.prototype.getMonth\<close> and \<open>Date.prototype.setMonth\<close>.\<close>

definition getMonth :: "zone \<Rightarrow> date \<Rightarrow> int" where
  "getMonth z t = MonthFromTime (LocalTime z t)"

definition setMonth :: "zone \<Rightarrow> date \<Rightarrow> int \<Rightarrow> date" where
  "setMonth z t month =
     (let l = LocalTime z t
      in UTC z (MakeDate (MakeDay (YearFromTime l) month (DateFromTime l)) (TimeWithinDay l)))"

text \<open>A zone with one offset all year; Asia/Colombo is five and a half hours ahead of UTC.\<close>

definition fixedZone :: "int \<Rightarrow> zone" where
  "fixedZone off = \<lparr>utcOffset = (\<lambda>t. off), localOffset = (\<lambda>t. off)\<rparr>"

definition colombo :: zone where
  "colombo = fixedZone 19800000"

text \<open>
  One month later, in the words of the claim, on local time values: the same time of day on
  the same day of the following month or, when the following month has no such day, as many
  days into the month after it as the day lies past the end of the following month.
\<close>

definition monthLater :: "date \<Rightarrow> date \<Rightarrow> bool" where
  "monthLater l l' =
     (let Y = YearFromTime l; M = MonthFromTime l; D = DateFromTime l;
          Y1 = Y + (M + 1) div 12; M1 = (M + 1) mod 12;
          n = daysInMonth (leapYear Y1) M1
      in TimeWithinDay l' = TimeWithinDay l \<and>
         (if D \<le> n
          then YearFromTime l' = Y1 \<and> MonthFromTime l' = M1 \<and> DateFromTime l' = D
          else YearFromTime l' = Y + (M + 2) div 12 \<and> MonthFromTime l' = (M + 2) mod 12
               \<and> DateFromTime l' = D - n))"


section \<open>The stores\<close>

text \<open>
  The documents of the three collections, with the fields the notification handlers and the
  auto-renewal endpoints read or write. Customer and plan details (name, phone, address,
  plan id and the like), which no decision depends on, are left out. \<open>_id\<close> is a number.
\<close>

datatype payment_status = Pay_pending | Pay_completed | Pay_failed | Pay_cancelled

datatype order_status =
  Ord_pending | Ord_confirmed | Ord_processing | Ord_shipped | Ord_delivered | Ord_cancelled

record cartOrder =
  co_id :: nat
  customerEmail :: string
  orderId :: string
  totalAmount :: amount
  paymentStatus :: payment_status
  co_payhereOrderId :: string
  co_payherePaymentId :: "string option"
  orderStatus :: order_status
  co_updatedAt :: date

datatype subscription_status =
  Active | Inactive | Cancelled | Expired | Pending_renewal | Payment_failed

datatype renewal_status = Success | Failed | Renewal_cancelled

record renewalEntry =
  renewalDate :: date
  r_amount :: amount
  r_status :: renewal_status
  r_paymentId :: "string option"
  failureReason :: "string option"
  attempt :: nat
  payhereToken :: "string option"

record foodSubscription =
  sub_id :: nat
  userEmail :: string
  status :: subscription_status
  amount :: amount
  currency :: string
  payhereOrderId :: "string option"
  payherePaymentId :: "string option"
  payhereRecurringToken :: "string option"
  autoRenew :: bool
  renewalAttempts :: nat
  maxRenewalAttempts :: nat
  paymentFailure :: bool
  lastPaymentFailureDate :: "date option"
  autoRenewalCancelledDate :: "date option"
  autoRenewalCancelledReason :: "string option"
  startDate :: date
  endDate :: "date option"
  nextBillingDate :: "date option"
  renewalHistory :: "renewalEntry list"
  createdAt :: date
  updatedAt :: date

datatype log_action =
  Created | Renewed | Log_cancelled | Log_failed | Auto_renewal_cancelled | Reactivated

record subscriptionLog =
  log_subscriptionId :: nat
  log_userEmail :: string
  action :: log_action
  log_paymentId :: "string option"
  log_amount :: "amount option"
  log_reason :: "string option"
  log_payhereToken :: "string option"
  timestamp :: date

record db =
  orders :: "cartOrder list"
  subscriptions :: "foodSubscription list"
  logs :: "subscriptionLog list"

text \<open>
  \<open>doc.save()\<close> of a document read from the store replaces the stored document with the
  same \<open>_id\<close>; the subscription schema's \<open>pre('save')\<close> hook stamps \<open>updatedAt\<close>.
\<close>

definition saveOrder :: "cartOrder \<Rightarrow> cartOrder list \<Rightarrow> cartOrder list" where
  "saveOrder order os = map (\<lambda>x. if co_id x = co_id order then order else x) os"

definition saveSubscription ::
  "date \<Rightarrow> foodSubscription \<Rightarrow> foodSubscription list \<Rightarrow> foodSubscription list" where
  "saveSubscription now s subs =
     map (\<lambda>x. if sub_id x = sub_id s then s\<lparr>updatedAt := now\<rparr> else x) subs"

definition newId :: "foodSubscription list \<Rightarrow> nat" where
  "newId subs = Suc (foldl max 0 (map sub_id subs))"

text \<open>
  \<open>findOne(filter).sort({ createdAt: -1 })\<close>: of the documents that pass the filter, one
  with the latest creation time (the earliest stored of them, where several share it).
\<close>

definition findLatest ::
  "(foodSubscription \<Rightarrow> bool) \<Rightarrow> foodSubscription list \<Rightarrow> foodSubscription option" where
  "findLatest P subs =
     (case filter P subs of
        [] \<Rightarrow> None
      | c # cs \<Rightarrow> Some (foldl (\<lambda>best x. if createdAt best < createdAt x then x else best) c cs))"


section \<open>Notification handlers\<close>

text \<open>\<open>handleCartPaymentNotification\<close>\<close>

definition handleCartPaymentNotification :: "date \<Rightarrow> notification \<Rightarrow> db \<Rightarrow> db" where
  "handleCartPaymentNotification now n st =
     (case find (\<lambda>x. Some (co_payhereOrderId x) = order_id n) (orders st) of
        None \<Rightarrow> st
      | Some order \<Rightarrow>
          if status_code n = Some ''2''
          then st\<lparr>orders := saveOrder (order\<lparr>paymentStatus := Pay_completed,
                                               orderStatus := Ord_confirmed,
                                               co_payherePaymentId := payment_id n,
                                               co_updatedAt := now\<rparr>) (orders st)\<rparr>
          else st\<lparr>orders := saveOrder (order\<lparr>paymentStatus := Pay_failed,
                                               orderStatus := Ord_cancelled,
                                               co_updatedAt := now\<rparr>) (orders st)\<rparr>)"

text \<open>
  \<open>handleInitialFoodPaymentWithRecurring\<close>. A notification without an amount gives
  \<open>parseFloat(undefined) = NaN\<close>, which the store refuses to save as the required number
  \<open>amount\<close>; the handler catches the error and nothing is written. A notification without a
  currency leaves the schema's default, \<open>LKR\<close>.
\<close>

definition thirtyDays :: int where
  "thirtyDays = 30 * 24 * 60 * 60 * 1000"

definition handleInitialFoodPaymentWithRecurring ::
  "zone \<Rightarrow> date \<Rightarrow> notification \<Rightarrow> db \<Rightarrow> db" where
  "handleInitialFoodPaymentWithRecurring z now n st =
     (let isRecurring = (custom_2 n = Some ''food_monthly_recurring'')
      in case find (\<lambda>x. payhereOrderId x = order_id n) (subscriptions st) of
           Some existingSubscription \<Rightarrow>
             if isRecurring \<and> truthy (recurring_token n)
             then st\<lparr>subscriptions := saveSubscription now
                        (existingSubscription\<lparr>
                           payhereRecurringToken := recurring_token n,
                           payherePaymentId := payment_id n,
                           autoRenew := True,
                           status := Active,
                           nextBillingDate :=
                             Some (case next_occurrence_date n of
                                     Some d \<Rightarrow> d | None \<Rightarrow> now + thirtyDays)\<rparr>)
                        (subscriptions st)\<rparr>
             else st
         | None \<Rightarrow>
             (case payhere_amount n of
                None \<Rightarrow> st
              | Some a \<Rightarrow>
                  let startDate' = now;
                      endDate' = setMonth z startDate' (getMonth z startDate' + 1);
                      subscription = \<lparr>
                        sub_id = newId (subscriptions st),
                        userEmail = (if truthy (email n) then tmpl (email n)
                                     else ''customer@example.com''),
                        status = Active,
                        amount = a,
                        currency = (case payhere_currency n of None \<Rightarrow> ''LKR'' | Some c \<Rightarrow> c),
                        payhereOrderId = order_id n,
                        payherePaymentId = payment_id n,
                        payhereRecurringToken = recurring_token n,
                        autoRenew = (isRecurring \<and> truthy (recurring_token n)),
                        renewalAttempts = 0,
                        maxRenewalAttempts = 3,
                        paymentFailure = False,
                        lastPaymentFailureDate = None,
                        autoRenewalCancelledDate = None,
                        autoRenewalCancelledReason = None,
                        startDate = startDate',
                        endDate = Some endDate',
                        nextBillingDate =
                          (if isRecurring \<and> truthy (recurring_token n)
                           then Some (case next_occurrence_date n of
                                        Some d \<Rightarrow> d | None \<Rightarrow> endDate')
                           else None),
                        renewalHistory = [\<lparr>
                          renewalDate = startDate',
                          r_amount = a,
                          r_status = Success,
                          r_paymentId = payment_id n,
                          failureReason = None,
                          attempt = 1,
                          payhereToken = recurring_token n\<rparr>],
                        createdAt = now,
                        updatedAt = now\<rparr>
                  in st\<lparr>subscriptions := subscriptions st @ [subscription],
                        logs := logs st @ [\<lparr>
                          log_subscriptionId = sub_id subscription,
                          log_userEmail = userEmail subscription,
                          action = Created,
                          log_paymentId = payment_id n,
                          log_amount = Some a,
                          log_reason = None,
                          log_payhereToken = recurring_token n,
                          timestamp = now\<rparr>]\<rparr>))"

text \<open>
  \<open>handleRecurringFoodPayment\<close>. Its query is
  \<open>{ $or: [{ payhereRecurringToken: subscription_id }, { userEmail: email }], autoRenew: true }\<close>,
  newest first. A query value that is absent is sent as \<open>null\<close> and matches the documents
  in which the field is absent; \<open>userEmail\<close> is never absent.
\<close>

definition recurringCandidate :: "notification \<Rightarrow> foodSubscription \<Rightarrow> bool" where
  "recurringCandidate n x =
     ((payhereRecurringToken x = subscription_id n
       \<or> Some (userEmail x) = map_option (\<lambda>e. trim (toLowerCase e)) (email n))
      \<and> autoRenew x)"

definition recurringLookup :: "notification \<Rightarrow> foodSubscription list \<Rightarrow> foodSubscription option" where
  "recurringLookup n subs = findLatest (recurringCandidate n) subs"

text \<open>The assignments of the success branch, on the subscription found.\<close>

definition renewalSucceeded ::
  "zone \<Rightarrow> date \<Rightarrow> notification \<Rightarrow> amount \<Rightarrow> date \<Rightarrow> foodSubscription
     \<Rightarrow> foodSubscription" where
  "renewalSucceeded z now n a currentEndDate subscription =
     (let newEndDate = setMonth z currentEndDate (getMonth z currentEndDate + 1)
      in subscription\<lparr>
           status := Active,
           endDate := Some newEndDate,
           nextBillingDate :=
             Some (case next_occurrence_date n of Some d \<Rightarrow> d | None \<Rightarrow> newEndDate),
           renewalAttempts := 0,
           paymentFailure := False,
           renewalHistory := renewalHistory subscription @ [\<lparr>
             renewalDate = now,
             r_amount = a,
             r_status = Success,
             r_paymentId = payment_id n,
             failureReason = None,
             attempt = 0 + 1,
             payhereToken = payhereRecurringToken subscription\<rparr>]\<rparr>)"

text \<open>The assignments of the failure branch.\<close>

definition renewalFailed ::
  "date \<Rightarrow> notification \<Rightarrow> amount \<Rightarrow> foodSubscription \<Rightarrow> foodSubscription" where
  "renewalFailed now n a subscription =
     (let attempts = renewalAttempts subscription + 1
      in subscription\<lparr>
           renewalAttempts := attempts,
           paymentFailure := True,
           lastPaymentFailureDate := Some now,
           status := (if attempts \<ge> maxRenewalAttempts subscription
                      then Cancelled else Pending_renewal),
           renewalHistory := renewalHistory subscription @ [\<lparr>
             renewalDate = now,
             r_amount = a,
             r_status = Failed,
             r_paymentId = None,
             failureReason = Some (''Payment failed with status code: '' @ tmpl (status_code n)),
             attempt = attempts,
             payhereToken = payhereRecurringToken subscription\<rparr>],
           autoRenew := (if attempts \<ge> maxRenewalAttempts subscription
                         then False else autoRenew subscription)\<rparr>)"

text \<open>
  The handler. A subscription without an end date gives an invalid date, and a notification
  without an amount gives \<open>NaN\<close>; the store refuses both on \<open>save\<close>, the handler catches
  the error, and nothing is written.
\<close>

definition handleRecurringFoodPayment :: "zone \<Rightarrow> date \<Rightarrow> notification \<Rightarrow> db \<Rightarrow> db" where
  "handleRecurringFoodPayment z now n st =
     (case recurringLookup n (subscriptions st) of
        None \<Rightarrow> st
      | Some subscription \<Rightarrow>
          (case payhere_amount n of
             None \<Rightarrow> st
           | Some a \<Rightarrow>
               if status_code n = Some ''2''
               then (case endDate subscription of
                       None \<Rightarrow> st
                     | Some currentEndDate \<Rightarrow>
                         st\<lparr>subscriptions := saveSubscription now
                               (renewalSucceeded z now n a currentEndDate subscription)
                               (subscriptions st),
                            logs := logs st @ [\<lparr>
                              log_subscriptionId = sub_id subscription,
                              log_userEmail = userEmail subscription,
                              action = Renewed,
                              log_paymentId = payment_id n,
                              log_amount = Some a,
                              log_reason = None,
                              log_payhereToken = payhereRecurringToken subscription,
                              timestamp = now\<rparr>]\<rparr>)
               else st\<lparr>subscriptions := saveSubscription now
                            (renewalFailed now n a subscription) (subscriptions st),
                        logs := logs st @ [\<lparr>
                          log_subscriptionId = sub_id subscription,
                          log_userEmail = userEmail subscription,
                          action = Log_failed,
                          log_paymentId = payment_id n,
                          log_amount = Some a,
                          log_reason = Some (''Payment failed with status code: ''
                                             @ tmpl (status_code n)),
                          log_payhereToken = payhereRecurringToken subscription,
                          timestamp = now\<rparr>]\<rparr>))"

text \<open>\<open>handleFailedFoodPayment\<close>: the assignments, then the handler.\<close>

definition paymentFailed :: "date \<Rightarrow> notification \<Rightarrow> foodSubscription \<Rightarrow> foodSubscription" where
  "paymentFailed now n subscription =
     (let attempts = renewalAttempts subscription + 1;
          exhausted = (attempts \<ge> maxRenewalAttempts subscription)
      in subscription\<lparr>
           status := (if exhausted then Cancelled else Payment_failed),
           paymentFailure := True,
           lastPaymentFailureDate := Some now,
           renewalAttempts := attempts,
           renewalHistory := renewalHistory subscription @ [\<lparr>
             renewalDate = now,
             r_amount = amount subscription,
             r_status = Failed,
             r_paymentId = None,
             failureReason = Some (tmpl (status_code n) @ '' - '' @ tmpl (status_message n)),
             attempt = attempts,
             payhereToken = None\<rparr>],
           autoRenew := (if exhausted then False else autoRenew subscription)\<rparr>)"

definition handleFailedFoodPayment :: "date \<Rightarrow> notification \<Rightarrow> db \<Rightarrow> db" where
  "handleFailedFoodPayment now n st =
     (case find (\<lambda>x. payhereOrderId x = order_id n) (subscriptions st) of
        None \<Rightarrow> st
      | Some subscription \<Rightarrow>
          st\<lparr>subscriptions := saveSubscription now (paymentFailed now n subscription)
                                 (subscriptions st),
             logs := logs st @ [\<lparr>
               log_subscriptionId = sub_id subscription,
               log_userEmail = userEmail subscription,
               action = Log_failed,
               log_paymentId = None,
               log_amount = Some (amount subscription),
               log_reason = Some (tmpl (status_code n) @ '' - '' @ tmpl (status_message n)),
               log_payhereToken = None,
               timestamp = now\<rparr>]\<rparr>)"


section \<open>The notification endpoint\<close>

text \<open>
  \<open>POST /api/payhere-notify\<close>. The configuration holds the merchant id, the merchant
  secret and the time zone of the server process. The response is the HTTP status and the
  text sent. The handlers catch their own errors, so the endpoint answers 200 once the
  notification is authentic. \<open>route\<close> is the choice of the handler, made after the checks,
  where \<open>order_id\<close> is present.
\<close>

record config =
  cfg_merchantId :: string
  cfg_merchantSecret :: string
  cfg_zone :: zone

type_synonym response = "nat \<times> string"

definition isFood :: "notification \<Rightarrow> bool" where
  "isFood n =
     (custom_2 n = Some ''food_monthly_recurring'' \<or> startsWith (tmpl (order_id n)) ''FOOD_'')"

definition route :: "zone \<Rightarrow> date \<Rightarrow> notification \<Rightarrow> db \<Rightarrow> db" where
  "route z now n st =
     (if status_code n = Some ''2''
      then (if custom_1 n = Some ''cart_order'' \<or> startsWith (tmpl (order_id n)) ''CART_''
            then handleCartPaymentNotification now n st
            else if isFood n
            then (if event_type n = Some ''SUBSCRIPTION_PAYMENT'' \<and> truthy (recurring_token n)
                  then handleRecurringFoodPayment z now n st
                  else handleInitialFoodPaymentWithRecurring z now n st)
            else handleCartPaymentNotification now n st)
      else (if isFood n
            then handleFailedFoodPayment now n st
            else handleCartPaymentNotification now n st))"

definition payhereNotify :: "config \<Rightarrow> date \<Rightarrow> notification \<Rightarrow> db \<Rightarrow> response \<times> db" where
  "payhereNotify cfg now n st =
     (if \<not> truthy (merchant_id n) \<or> \<not> truthy (order_id n) \<or> payhere_amount n = None
         \<or> \<not> truthy (payhere_currency n) \<or> \<not> truthy (status_code n) \<or> \<not> truthy (md5sig n)
      then ((400, ''Missing required fields''), st)
      else if trim (tmpl (merchant_id n)) \<noteq> trim (cfg_merchantId cfg)
      then ((400, ''Merchant ID mismatch''), st)
      else (case verifyPayHereHash n (cfg_merchantSecret cfg) of
              None \<Rightarrow> ((500, ''Server error''), st)
            | Some False \<Rightarrow> ((400, ''Invalid hash''), st)
            | Some True \<Rightarrow> ((200, ''OK''), route (cfg_zone cfg) now n st)))"


section \<open>Cancelling and reactivating auto-renewal\<close>

text \<open>
  The request bodies of \<open>POST /api/cancel-food-subscription-renewal\<close> and
  \<open>POST /api/reactivate-food-subscription-renewal\<close>, and their answers:
  \<^item> \<open>Bad_request\<close>: status 400, \<open>Subscription ID or email is required\<close>;
  \<^item> \<open>Not_found\<close>: \<open>success: false\<close>, \<open>No active food subscription with auto-renewal found\<close>
    or \<open>No eligible subscription found for reactivation\<close>;
  \<^item> \<open>Already_disabled\<close>: \<open>success: true\<close>, \<open>Auto-renewal is already disabled\<close>;
  \<^item> \<open>Cancelled_ok\<close>: \<open>success: true\<close>, \<open>Auto-renewal cancelled successfully\<close>;
  \<^item> \<open>Not_modified\<close>: \<open>success: false\<close>, \<open>Failed to cancel auto-renewal\<close>;
  \<^item> \<open>Subscription_expired\<close>: \<open>success: false\<close>, \<open>Subscription has expired\<close>;
  \<^item> \<open>Reactivated_ok\<close>: \<open>success: true\<close>, \<open>Auto-renewal reactivated successfully\<close>;
  \<^item> \<open>Failed_after_commit\<close>: the cancellation is committed, then the handler throws
    while it prints the end date of a subscription that has none; no success is answered.
\<close>

record toggleRequest =
  req_subscriptionId :: "nat option"
  req_userEmail :: "string option"
  req_reason :: "string option"

datatype toggle_response =
  Bad_request | Not_found | Already_disabled | Cancelled_ok | Not_modified
  | Subscription_expired | Reactivated_ok | Failed_after_commit

fun success :: "toggle_response \<Rightarrow> bool" where
  "success Already_disabled = True"
| "success Cancelled_ok = True"
| "success Reactivated_ok = True"
| "success r = False"

text \<open>
  The first conjunct of both queries:
  \<open>subscriptionId ? { _id: subscriptionId } : { userEmail: userEmail?.toLowerCase().trim() }\<close>.
\<close>

definition identified :: "toggleRequest \<Rightarrow> foodSubscription \<Rightarrow> bool" where
  "identified req x =
     (case req_subscriptionId req of
        Some i \<Rightarrow> sub_id x = i
      | None \<Rightarrow> Some (userEmail x) = map_option (\<lambda>e. trim (toLowerCase e)) (req_userEmail req))"

text \<open>
  The \<open>$set\<close> and \<open>$unset\<close> of the cancellation, built from the subscription found and
  applied to a stored document.
\<close>

definition cancelUpdate ::
  "date \<Rightarrow> toggleRequest \<Rightarrow> foodSubscription \<Rightarrow> foodSubscription \<Rightarrow> foodSubscription" where
  "cancelUpdate now req subscription x =
     x\<lparr>autoRenew := False,
       updatedAt := now,
       autoRenewalCancelledDate := Some now,
       autoRenewalCancelledReason :=
         Some (if truthy (req_reason req) then tmpl (req_reason req)
               else ''User requested cancellation''),
       payhereRecurringToken :=
         (if truthy (payhereRecurringToken subscription) then None
          else payhereRecurringToken x)\<rparr>"

text \<open>
  The cancellation, in one transaction: \<open>updateOne({ _id: subscription._id }, updateData)\<close>
  changes the document with this \<open>_id\<close>, and when it modifies no document the transaction is
  aborted and nothing is written.
\<close>

definition cancelAutoRenew :: "date \<Rightarrow> toggleRequest \<Rightarrow> db \<Rightarrow> toggle_response \<times> db" where
  "cancelAutoRenew now req st =
     (if req_subscriptionId req = None \<and> \<not> truthy (req_userEmail req)
      then (Bad_request, st)
      else case find (\<lambda>x. identified req x \<and> status x = Active \<and> autoRenew x)
                     (subscriptions st) of
             None \<Rightarrow> (Not_found, st)
           | Some subscription \<Rightarrow>
               if \<not> autoRenew subscription
               then (Already_disabled, st)
               else if list_ex (\<lambda>x. sub_id x = sub_id subscription
                                     \<and> cancelUpdate now req subscription x \<noteq> x)
                               (subscriptions st)
               then ((if endDate subscription = None then Failed_after_commit else Cancelled_ok),
                     st\<lparr>subscriptions :=
                          map (\<lambda>x. if sub_id x = sub_id subscription
                                    then cancelUpdate now req subscription x else x)
                              (subscriptions st),
                        logs := logs st @ [\<lparr>
                          log_subscriptionId = sub_id subscription,
                          log_userEmail = userEmail subscription,
                          action = Auto_renewal_cancelled,
                          log_paymentId = None,
                          log_amount = None,
                          log_reason =
                            Some (if truthy (req_reason req) then tmpl (req_reason req)
                                  else ''User requested cancellation''),
                          log_payhereToken =
                            (if truthy (payhereRecurringToken subscription)
                             then payhereRecurringToken subscription else None),
                          timestamp = now\<rparr>]\<rparr>)
               else (Not_modified, st))"

text \<open>The reactivation.\<close>

definition reactivateAutoRenew :: "date \<Rightarrow> toggleRequest \<Rightarrow> db \<Rightarrow> toggle_response \<times> db" where
  "reactivateAutoRenew now req st =
     (if req_subscriptionId req = None \<and> \<not> truthy (req_userEmail req)
      then (Bad_request, st)
      else case find (\<lambda>x. identified req x
                           \<and> (status x = Active \<or> status x = Pending_renewal)
                           \<and> \<not> autoRenew x)
                     (subscriptions st) of
             None \<Rightarrow> (Not_found, st)
           | Some subscription \<Rightarrow>
               if (case endDate subscription of Some e \<Rightarrow> e \<le> now | None \<Rightarrow> False)
               then (Subscription_expired, st)
               else (Reactivated_ok,
                     st\<lparr>subscriptions := saveSubscription now
                          (subscription\<lparr>
                             autoRenew := True,
                             status := Active,
                             renewalAttempts := 0,
                             paymentFailure := False,
                             nextBillingDate :=
                               (if nextBillingDate subscription = None
                                then endDate subscription
                                else nextBillingDate subscription)\<rparr>)
                          (subscriptions st),
                        logs := logs st @ [\<lparr>
                          log_subscriptionId = sub_id subscription,
                          log_userEmail = userEmail subscription,
                          action = Reactivated,
                          log_paymentId = None,
                          log_amount = None,
                          log_reason = None,
                          log_payhereToken = None,
                          timestamp = now\<rparr>]\<rparr>))"


section \<open>The bound on the renewal attempts\<close>

text \<open>
  The invariant of the data model: while the status is \<open>active\<close> or \<open>pending_renewal\<close>, the
  renewal attempts are below the maximum.
\<close>

definition attemptsBounded :: "foodSubscription \<Rightarrow> bool" where
  "attemptsBounded s =
     (if status s = Active \<or> status s = Pending_renewal
      then renewalAttempts s < maxRenewalAttempts s else True)"


section \<open>Example data\<close>

text \<open>A merchant, a cart order waiting for its payment, and the gateway's notification.\<close>

definition ex_cfg :: config where
  "ex_cfg = \<lparr>cfg_merchantId = ''121114'', cfg_merchantSecret = ''secret'',
              cfg_zone = colombo\<rparr>"

definition ex_order :: cartOrder where
  "ex_order = \<lparr>
     co_id = 1, customerEmail = ''a@example.com'', orderId = ''CART_1'',
     totalAmount = 250000, paymentStatus = Pay_pending, co_payhereOrderId = ''CART_1'',
     co_payherePaymentId = None, orderStatus = Ord_pending, co_updatedAt = 1705312800000\<rparr>"

definition ex_notification :: notification where
  "ex_notification = \<lparr>
     merchant_id = Some ''121114'', order_id = Some ''CART_1'',
     payment_id = Some ''320025000000'', payhere_amount = Some 250000,
     payhere_currency = Some ''LKR'', status_code = Some ''2'',
     md5sig = Some ''f17de65fd48512f4fed3c5c99ac31bfe'', status_message = Some ''Success'',
     custom_1 = Some ''cart_order'', custom_2 = None, email = None, recurring_token = None,
     subscription_id = None, event_type = None, next_occurrence_date = None\<rparr>"

definition ex_cart_db :: db where
  "ex_cart_db = \<lparr>orders = [ex_order], subscriptions = [], logs = []\<rparr>"

text \<open>
  A subscription created on 2024-01-15 and paid until 2024-02-15, a second, later one of
  another customer, and one whose auto-renewal is off.
\<close>

definition ex_sub :: foodSubscription where
  "ex_sub = \<lparr>
     sub_id = 1, userEmail = ''a@example.com'', status = Active, amount = 250000,
     currency = ''LKR'', payhereOrderId = Some ''FOOD_1'', payherePaymentId = Some ''P1'',
     payhereRecurringToken = Some ''TOK'', autoRenew = True, renewalAttempts = 0,
     maxRenewalAttempts = 3, paymentFailure = False, lastPaymentFailureDate = None,
     autoRenewalCancelledDate = None, autoRenewalCancelledReason = None,
     startDate = 1705312800000, endDate = Some 1707991200000,
     nextBillingDate = Some 1707991200000, renewalHistory = [],
     createdAt = 1705312800000, updatedAt = 1705312800000\<rparr>"

definition ex_email_sub :: foodSubscription where
  "ex_email_sub = ex_sub\<lparr>
     sub_id := 2, userEmail := ''b@example.com'', payhereOrderId := Some ''FOOD_2'',
     payhereRecurringToken := Some ''OTHER'', createdAt := 1706000000000\<rparr>"

definition ex_disabled_sub :: foodSubscription where
  "ex_disabled_sub = ex_sub\<lparr>autoRenew := False, payhereRecurringToken := None\<rparr>"

definition ex_recurring_notification :: notification where
  "ex_recurring_notification = ex_notification\<lparr>
     order_id := Some ''FOOD_1'', custom_1 := None, custom_2 := Some ''food_monthly_recurring'',
     email := Some ''B@Example.com '', recurring_token := Some ''TOK'',
     subscription_id := Some ''TOK'', event_type := Some ''SUBSCRIPTION_PAYMENT''\<rparr>"

definition ex_initial_notification :: notification where
  "ex_initial_notification = ex_notification\<lparr>
     order_id := Some ''FOOD_1'', md5sig := Some ''472FDF438A9AE8DAF95B911B4188D69E'',
     custom_1 := Some ''plan_food_premium'', custom_2 := Some ''food_monthly_recurring'',
     email := Some ''a@example.com'', recurring_token := Some ''TOK''\<rparr>"

definition ex_failed_notification :: notification where
  "ex_failed_notification = ex_initial_notification\<lparr>
     status_code := Some ''-2'', md5sig := Some ''72E521A6E811C94AF09BFA3F45A8411A'',
     status_message := Some ''Failed'', recurring_token := None\<rparr>"

text \<open>
  The gateway's notification of a failed recurring charge of this subscription: the failed
  payment with the event type and the token of a subscription payment.
\<close>

definition ex_failed_recurring_notification :: notification where
  "ex_failed_recurring_notification = ex_failed_notification\<lparr>
     recurring_token := Some ''TOK'', subscription_id := Some ''TOK'',
     event_type := Some ''SUBSCRIPTION_PAYMENT''\<rparr>"

text \<open>The store after a sequence of notifications, each delivered at its time.\<close>

definition deliver :: "config \<Rightarrow> (date \<times> notification) list \<Rightarrow> db \<Rightarrow> db" where
  "deliver cfg ns st = foldl (\<lambda>st' (now, n). snd (payhereNotify cfg now n st')) st ns"

definition ex_by_id :: toggleRequest where
  "ex_by_id = \<lparr>req_subscriptionId = Some 1, req_userEmail = None, req_reason = None\<rparr>"

definition empty_db :: db where
  "empty_db = \<lparr>orders = [], subscriptions = [], logs = []\<rparr>"

text \<open>A run of failed renewals, each with its time, notification and amount.\<close>

definition failures ::
  "(date \<times> notification \<times> amount) list \<Rightarrow> foodSubscription \<Rightarrow> foodSubscription" where
  "failures evs s = foldl (\<lambda>x (now, n, a). renewalFailed now n a x) s evs"


section \<open>Evaluating the digest\<close>

lemma le_bytes_numeral:
  "le_bytes (numeral k) v = v mod 256 # le_bytes (pred_numeral k) (v div 256)"
  by (simp only: numeral_eq_Suc [of k] le_bytes.simps)

lemma md5_blocks_numeral:
  "md5_blocks (numeral k) st ws =
     md5_blocks (pred_numeral k) (md5_block st (take 16 ws)) (drop 16 ws)"
  by (simp only: numeral_eq_Suc [of k] md5_blocks.simps)

lemma replicate_numeral_unfold:
  "replicate (numeral k) x = x # replicate (pred_numeral k) x"
  by (simp only: numeral_eq_Suc [of k] replicate.simps)

lemmas md5_eval =
  md5_hex_def md5_bytes_def md5_pad_def md5_sched_def add32_def rotl32_def md5_f_def
  not32_def hex_digit_def le_bytes_numeral replicate_numeral_unfold md5_blocks_numeral

text \<open>Two test vectors of RFC 1321.\<close>

lemma md5_hex_empty: "md5_hex [] = ''d41d8cd98f00b204e9800998ecf8427e''"
  by (simp add: md5_eval)

lemma md5_hex_abc: "md5_hex ''abc'' = ''900150983cd24fb0d6963f7d28e17f72''"
  by (simp add: md5_eval)

text \<open>The digests of the example merchant.\<close>

lemma md5_hex_secret: "md5_hex ''secret'' = ''5ebe2294ecd0e0f08eab7690d2a6ee69''"
  by (simp add: md5_eval)

lemma md5_hex_sign:
  "md5_hex ''121114CART_12500.00LKR5EBE2294ECD0E0F08EAB7690D2A6EE69''
     = ''9de1397f9e3a4922bd26c5e6c2a31430''"
  by (simp add: md5_eval)

lemma md5_hex_secret_first:
  "md5_hex ''5EBE2294ECD0E0F08EAB7690D2A6EE69121114CART_12500.00LKR''
     = ''851e0c21535b99e241f8773ddabba015''"
  by (simp add: md5_eval)

lemma md5_hex_verify:
  "md5_hex ''121114CART_12500.00LKR25EBE2294ECD0E0F08EAB7690D2A6EE69''
     = ''f17de65fd48512f4fed3c5c99ac31bfe''"
  by (simp add: md5_eval)

lemma md5_hex_verify_initial:
  "md5_hex ''121114FOOD_12500.00LKR25EBE2294ECD0E0F08EAB7690D2A6EE69''
     = ''472fdf438a9ae8daf95b911b4188d69e''"
  by (simp add: md5_eval)

lemma md5_hex_verify_failed:
  "md5_hex ''121114FOOD_12500.00LKR-25EBE2294ECD0E0F08EAB7690D2A6EE69''
     = ''72e521a6e811c94af09bfa3f45a8411a''"
  by (simp add: md5_eval)

lemmas string_eval =
  toUpperCase_def upper_char_def toLowerCase_def lower_char_def trim_def is_ws_def
  toFixed2_def decimal.simps digit_char_def tmpl_def truthy_def startsWith_def


section \<open>The digest construction\<close>

lemma generatePayHereHash_unfold:
  "generatePayHereHash m oid a cur secret =
     toUpperCase (md5_hex (m @ oid @ toFixed2 a @ cur @ toUpperCase (md5_hex secret)))"
  by (simp add: generatePayHereHash_def Let_def)

lemma verifyPayHereHash_unfold:
  "verifyPayHereHash n secret =
     (case md5sig n of
        None \<Rightarrow> None
      | Some sig \<Rightarrow>
          Some (toUpperCase (md5_hex (tmpl (merchant_id n) @ tmpl (order_id n) @
                  (case payhere_amount n of None \<Rightarrow> ''NaN'' | Some a \<Rightarrow> toFixed2 a) @
                  tmpl (payhere_currency n) @ tmpl (status_code n) @
                  toUpperCase (md5_hex secret)))
                = toUpperCase sig))"
  by (simp add: verifyPayHereHash_def Let_def)

text \<open>
  C1, as the claim states it, fails: the digest of the code is not the digest of the string
  that starts with the hashed secret. For merchant 121114, order \<open>CART_1\<close>, amount 2500.00,
  currency LKR and secret \<open>secret\<close> the two differ.
\<close>

theorem hashed_secret_first_counterexample:
  "generatePayHereHash ''121114'' ''CART_1'' 250000 ''LKR'' ''secret''
     \<noteq> spec_sign ''121114'' ''CART_1'' 250000 ''LKR'' ''secret''"
proof -
  have amt: "toFixed2 250000 = ''2500.00''"
    by (simp add: string_eval)
  have hs: "toUpperCase (md5_hex ''secret'') = ''5EBE2294ECD0E0F08EAB7690D2A6EE69''"
    by (simp add: md5_hex_secret toUpperCase_def upper_char_def)
  have code: "generatePayHereHash ''121114'' ''CART_1'' 250000 ''LKR'' ''secret''
                = ''9DE1397F9E3A4922BD26C5E6C2A31430''"
    by (simp add: generatePayHereHash_unfold amt hs md5_hex_sign)
       (simp add: toUpperCase_def upper_char_def)
  have spec: "spec_sign ''121114'' ''CART_1'' 250000 ''LKR'' ''secret''
                = ''851E0C21535B99E241F8773DDABBA015''"
    by (simp add: spec_sign_def amt hs md5_hex_secret_first)
       (simp add: toUpperCase_def upper_char_def)
  show ?thesis
    by (simp add: code spec)
qed

text \<open>
  C1, amended: the signing digest is the upper-case MD5 digest of merchant id, order id, the
  amount with two decimals, the currency and, last, the upper-case MD5 digest of the
  secret. The verification digest has the status code between the currency and the hashed
  secret, and is compared with the upper-cased signature of the notification.
\<close>

theorem hash_construction:
  assumes "merchant_id n = Some m" and "order_id n = Some oid"
    and "payhere_amount n = Some a" and "payhere_currency n = Some cur"
    and "status_code n = Some sc" and "md5sig n = Some sig"
  shows "generatePayHereHash m oid a cur secret =
           toUpperCase (md5_hex (m @ oid @ toFixed2 a @ cur @ toUpperCase (md5_hex secret)))
         \<and> verifyPayHereHash n secret =
           Some (toUpperCase (md5_hex (m @ oid @ toFixed2 a @ cur @ sc @
                                       toUpperCase (md5_hex secret)))
                 = toUpperCase sig)"
  using assms by (simp add: generatePayHereHash_unfold verifyPayHereHash_unfold tmpl_def)

theorem hash_construction_witness:
  "generatePayHereHash ''121114'' ''CART_1'' 250000 ''LKR'' ''secret'' =
     toUpperCase (md5_hex (''121114'' @ ''CART_1'' @ toFixed2 250000 @ ''LKR'' @
                           toUpperCase (md5_hex ''secret'')))
   \<and> verifyPayHereHash ex_notification ''secret'' =
     Some (toUpperCase (md5_hex (''121114'' @ ''CART_1'' @ toFixed2 250000 @ ''LKR'' @ ''2'' @
                                 toUpperCase (md5_hex ''secret'')))
           = toUpperCase ''f17de65fd48512f4fed3c5c99ac31bfe'')"
  using hash_construction [of ex_notification "''121114''" "''CART_1''" 250000 "''LKR''"
      "''2''" "''f17de65fd48512f4fed3c5c99ac31bfe''" "''secret''"]
  by (simp add: ex_notification_def)

text \<open>
  C10: on a merchant id, an order id, a currency and a secret that \<open>trim\<close> leaves alone,
  with the currency already in upper case, the one-time generator and the recurring
  generator give the same digest.
\<close>

theorem generators_agree:
  assumes "trim m = m" and "trim oid = oid" and "trim cur = cur"
    and "toUpperCase cur = cur" and "trim secret = secret"
  shows "generateRecurringPayHereHash m oid a cur secret = generatePayHereHash m oid a cur secret"
  using assms by (simp add: generateRecurringPayHereHash_def generatePayHereHash_def Let_def)

theorem generators_agree_witness:
  "trim ''121114'' = ''121114'' \<and> trim ''FOOD_1'' = ''FOOD_1'' \<and> trim ''LKR'' = ''LKR''
   \<and> toUpperCase ''LKR'' = ''LKR'' \<and> trim ''secret'' = ''secret''
   \<and> generateRecurringPayHereHash ''121114'' ''FOOD_1'' 250000 ''LKR'' ''secret''
       = generatePayHereHash ''121114'' ''FOOD_1'' 250000 ''LKR'' ''secret''"
proof -
  have h: "trim ''121114'' = ''121114''" "trim ''FOOD_1'' = ''FOOD_1''"
    "trim ''LKR'' = ''LKR''" "toUpperCase ''LKR'' = ''LKR''" "trim ''secret'' = ''secret''"
    by (simp_all add: trim_def is_ws_def toUpperCase_def upper_char_def)
  from h generators_agree [OF h, of 250000] show ?thesis
    by simp
qed


section \<open>The lookup of the recurring payment\<close>

lemma foldl_latest:
  "foldl (\<lambda>best x. if createdAt best < createdAt x then x else best) c cs \<in> set (c # cs)
   \<and> (\<forall>x\<in>set (c # cs).
         createdAt x \<le> createdAt (foldl (\<lambda>best x. if createdAt best < createdAt x then x else best) c cs))"
proof (induction cs arbitrary: c)
  case Nil
  then show ?case by simp
next
  case (Cons y ys)
  show ?case
    using Cons.IH [of "if createdAt c < createdAt y then y else c"]
    by (auto split: if_splits)
qed

lemma findLatest_None: "findLatest P subs = None \<longleftrightarrow> (\<forall>x\<in>set subs. \<not> P x)"
proof -
  have "findLatest P subs = None \<longleftrightarrow> filter P subs = []"
    by (simp add: findLatest_def split: list.splits)
  then show ?thesis
    by (simp add: filter_empty_conv)
qed

lemma findLatest_Some:
  assumes "findLatest P subs = Some s"
  shows "s \<in> set subs \<and> P s \<and> (\<forall>x\<in>set subs. P x \<longrightarrow> createdAt x \<le> createdAt s)"
proof -
  from assms obtain c cs where f: "filter P subs = c # cs"
    and s: "s = foldl (\<lambda>best x. if createdAt best < createdAt x then x else best) c cs"
    by (auto simp: findLatest_def split: list.splits)
  from foldl_latest [of c cs] s f
  have "s \<in> set (filter P subs)" and "\<forall>x\<in>set (filter P subs). createdAt x \<le> createdAt s"
    by simp_all
  then show ?thesis by auto
qed

text \<open>
  C2, as the claim states it, fails. The store holds a subscription whose recurring token is
  the notification's, and a second one with auto-renewal on, created later, that matches the
  notification by e-mail address only. The lookup returns the second one.
\<close>

theorem token_match_preferred_counterexample:
  "payhereRecurringToken ex_sub = recurring_token ex_recurring_notification
   \<and> payhereRecurringToken ex_sub = subscription_id ex_recurring_notification
   \<and> payhereRecurringToken ex_email_sub \<noteq> subscription_id ex_recurring_notification
   \<and> autoRenew ex_sub \<and> autoRenew ex_email_sub
   \<and> createdAt ex_sub < createdAt ex_email_sub
   \<and> recurringLookup ex_recurring_notification [ex_sub, ex_email_sub] = Some ex_email_sub
   \<and> ex_email_sub \<noteq> ex_sub"
  by (simp add: recurringLookup_def findLatest_def recurringCandidate_def ex_sub_def
      ex_email_sub_def ex_recurring_notification_def ex_notification_def string_eval)

text \<open>
  C2, amended: the lookup returns a subscription with auto-renewal on whose recurring token
  equals the notification's \<open>subscription_id\<close> or whose e-mail address equals the
  notification's address in lower case and trimmed, and no subscription of this kind was
  created later than the one returned; a token match is not preferred over a later e-mail
  match. The lookup returns nothing exactly when there is no subscription of this kind.
\<close>

theorem recurring_lookup_latest:
  "(case recurringLookup n subs of
      None \<Rightarrow> \<forall>x\<in>set subs. \<not> recurringCandidate n x
    | Some s \<Rightarrow> s \<in> set subs \<and> recurringCandidate n s
               \<and> (\<forall>x\<in>set subs. recurringCandidate n x \<longrightarrow> createdAt x \<le> createdAt s))"
proof (cases "recurringLookup n subs")
  case None
  then have "\<forall>x\<in>set subs. \<not> recurringCandidate n x"
    by (simp add: recurringLookup_def findLatest_None)
  with None show ?thesis
    by simp
next
  case (Some s)
  then have "findLatest (recurringCandidate n) subs = Some s"
    by (simp add: recurringLookup_def)
  from findLatest_Some [OF this] Some show ?thesis
    by simp
qed


lemma ex_lookup:
  "recurringLookup ex_recurring_notification [ex_sub, ex_email_sub] = Some ex_email_sub"
  by (simp add: recurringLookup_def findLatest_def recurringCandidate_def ex_sub_def
      ex_email_sub_def ex_recurring_notification_def ex_notification_def string_eval)

theorem recurring_lookup_latest_witness:
  "recurringLookup ex_recurring_notification [ex_sub, ex_email_sub] = Some ex_email_sub
   \<and> ex_email_sub \<in> set [ex_sub, ex_email_sub]
   \<and> recurringCandidate ex_recurring_notification ex_email_sub
   \<and> recurringCandidate ex_recurring_notification ex_sub
   \<and> createdAt ex_sub \<le> createdAt ex_email_sub"
proof -
  have c: "recurringCandidate ex_recurring_notification ex_sub"
    by (simp add: recurringCandidate_def ex_sub_def ex_recurring_notification_def
        ex_notification_def)
  from recurring_lookup_latest
         [where n = ex_recurring_notification and subs = "[ex_sub, ex_email_sub]"] c
  show ?thesis
    by (simp add: ex_lookup)
qed

section \<open>Cancelling auto-renewal that is already off\<close>

text \<open>
  The query of the cancellation asks for \<open>autoRenew: true\<close>, so the subscription found has
  auto-renewal on and the branch that answers \<open>Auto-renewal is already disabled\<close> is never
  taken.
\<close>

lemma cancelAutoRenew_never_already_disabled:
  "fst (cancelAutoRenew now req st) \<noteq> Already_disabled"
proof (cases "find (\<lambda>x. identified req x \<and> status x = Active \<and> autoRenew x) (subscriptions st)")
  case None
  then show ?thesis
    by (simp add: cancelAutoRenew_def)
next
  case (Some s)
  then have "autoRenew s"
    by (auto simp: find_Some_iff)
  with Some show ?thesis
    by (simp add: cancelAutoRenew_def)
qed

text \<open>
  C4 on the code: for an active subscription whose auto-renewal is already off, identified by
  its id, the cancellation writes no log entry and leaves the subscription unchanged, but its
  answer is the one for a subscription that was not found (\<open>success: false\<close>), not the
  \<open>already disabled\<close> one (\<open>success: true\<close>).
\<close>

theorem cancel_disabled_is_not_found:
  "\<not> autoRenew ex_disabled_sub
   \<and> cancelAutoRenew 1705316400000 ex_by_id (empty_db\<lparr>subscriptions := [ex_disabled_sub]\<rparr>)
       = (Not_found, empty_db\<lparr>subscriptions := [ex_disabled_sub]\<rparr>)"
  by (simp add: cancelAutoRenew_def identified_def ex_by_id_def ex_disabled_sub_def ex_sub_def
      empty_db_def)

text \<open>With auto-renewal on, the same request cancels it and writes the log entry.\<close>

lemma cancel_enabled_example:
  "fst (cancelAutoRenew 1705316400000 ex_by_id (empty_db\<lparr>subscriptions := [ex_sub]\<rparr>))
     = Cancelled_ok
   \<and> map (\<lambda>s. (autoRenew s, payhereRecurringToken s))
        (subscriptions (snd (cancelAutoRenew 1705316400000 ex_by_id
                               (empty_db\<lparr>subscriptions := [ex_sub]\<rparr>))))
       = [(False, None)]
   \<and> map action (logs (snd (cancelAutoRenew 1705316400000 ex_by_id
                              (empty_db\<lparr>subscriptions := [ex_sub]\<rparr>))))
       = [Auto_renewal_cancelled]"
  by (simp add: cancelAutoRenew_def cancelUpdate_def identified_def ex_by_id_def ex_sub_def
      empty_db_def truthy_def)


section \<open>The calendar\<close>


















lemma monthOfDay_range: "0 \<le> monthOfDay l d" "monthOfDay l d \<le> 11"
  by (simp_all add: monthOfDay_def)





lemma MonthFromTime_range: "0 \<le> MonthFromTime t" "MonthFromTime t \<le> 11"
  by (simp_all add: MonthFromTime_def monthOfDay_range)








text \<open>The calendar fields and the time within the day determine the time value.\<close>

lemma time_from_fields:
  "MakeDate (MakeDay (YearFromTime t) (MonthFromTime t) (DateFromTime t)) (TimeWithinDay t) = t"
proof -
  have "MonthFromTime t div 12 = 0" "MonthFromTime t mod 12 = MonthFromTime t"
    using MonthFromTime_range [of t] by simp_all
  then have "MakeDay (YearFromTime t) (MonthFromTime t) (DateFromTime t) = Day t"
    by (simp add: MakeDay_def Let_def DateFromTime_def InLeapYear_def DayWithinYear_def)
  then show ?thesis
    by (simp add: MakeDate_def Day_def TimeWithinDay_def)
qed


lemma monthLater_unique:
  assumes "monthLater l a" and "monthLater l b"
  shows "a = b"
proof -
  from assms have eq: "YearFromTime a = YearFromTime b" "MonthFromTime a = MonthFromTime b"
    "DateFromTime a = DateFromTime b" "TimeWithinDay a = TimeWithinDay b"
    by (simp_all add: monthLater_def Let_def split: if_splits)
  have "a = MakeDate (MakeDay (YearFromTime a) (MonthFromTime a) (DateFromTime a))
              (TimeWithinDay a)"
    by (simp only: time_from_fields)
  also have "\<dots> = MakeDate (MakeDay (YearFromTime b) (MonthFromTime b) (DateFromTime b))
                     (TimeWithinDay b)"
    by (simp only: eq)
  also have "\<dots> = b"
    by (rule time_from_fields)
  finally show ?thesis .
qed


lemmas date_eval =
  setMonth_def getMonth_def LocalTime_def UTC_def MakeDate_def MakeDay_def DateFromTime_def
  MonthFromTime_def monthOfDay_def firstDayOfMonth_def DayWithinYear_def InLeapYear_def
  leapYear_def YearFromTime_def YearFromDay_def DayFromYear_def DaysInYear_def
  TimeWithinDay_def Day_def msPerDay_def fixedZone_def colombo_def Let_def


lemma setMonth_end_of_january:
  "setMonth colombo 1706731200000 (getMonth colombo 1706731200000 + 1) = 1709236800000"
  "setMonth (fixedZone 0) 1706731200000 (getMonth (fixedZone 0) 1706731200000 + 1)
     = 1709409600000"
  by (simp_all add: date_eval cong: let_weak_cong)


section \<open>The renewal state machine\<close>

lemma find_saveSubscription:
  "s \<in> set subs \<Longrightarrow> sub_id s' = sub_id s \<Longrightarrow>
   find (\<lambda>x. sub_id x = sub_id s) (saveSubscription now s' subs) = Some (s'\<lparr>updatedAt := now\<rparr>)"
  by (induction subs) (auto simp: saveSubscription_def)

lemma recurringLookup_member: "recurringLookup n subs = Some s \<Longrightarrow> s \<in> set subs"
  using findLatest_Some [of "recurringCandidate n" subs s] by (simp add: recurringLookup_def)


lemma failures_snoc:
  "failures (evs @ [(now, n, a)]) s = renewalFailed now n a (failures evs s)"
  by (simp add: failures_def)

lemma failures_fields:
  "renewalAttempts (failures evs s) = renewalAttempts s + length evs
   \<and> maxRenewalAttempts (failures evs s) = maxRenewalAttempts s
   \<and> (evs \<noteq> [] \<longrightarrow> status (failures evs s) =
        (if maxRenewalAttempts s \<le> renewalAttempts s + length evs
         then Cancelled else Pending_renewal))
   \<and> autoRenew (failures evs s) =
        (if evs \<noteq> [] \<and> maxRenewalAttempts s \<le> renewalAttempts s + length evs
         then False else autoRenew s)
   \<and> (\<exists>new. renewalHistory (failures evs s) = renewalHistory s @ new
              \<and> length new = length evs \<and> (\<forall>e\<in>set new. r_status e = Failed))"
proof (induction evs rule: rev_induct)
  case Nil
  then show ?case
    by (simp add: failures_def)
next
  case (snoc ev evs)
  obtain now n a where ev: "ev = (now, n, a)"
    by (cases ev) auto
  from snoc obtain new where new: "renewalHistory (failures evs s) = renewalHistory s @ new"
    "length new = length evs" "\<forall>e\<in>set new. r_status e = Failed"
    by blast
  have hist: "\<exists>new'. renewalHistory (failures (evs @ [ev]) s) = renewalHistory s @ new'
                \<and> length new' = length (evs @ [ev]) \<and> (\<forall>e\<in>set new'. r_status e = Failed)"
    unfolding ev failures_snoc
    by (rule exI [of _ "new @ [last (renewalHistory (renewalFailed now n a (failures evs s)))]"])
       (simp add: renewalFailed_def Let_def new)
  from snoc have
    "renewalAttempts (failures (evs @ [ev]) s) = renewalAttempts s + length (evs @ [ev])"
    "maxRenewalAttempts (failures (evs @ [ev]) s) = maxRenewalAttempts s"
    "status (failures (evs @ [ev]) s) =
        (if maxRenewalAttempts s \<le> renewalAttempts s + length (evs @ [ev])
         then Cancelled else Pending_renewal)"
    "autoRenew (failures (evs @ [ev]) s) =
        (if maxRenewalAttempts s \<le> renewalAttempts s + length (evs @ [ev])
         then False else autoRenew s)"
    unfolding ev failures_snoc
    by (simp_all add: renewalFailed_def Let_def)
  with hist show ?case
    by simp
qed

text \<open>
  The failure branch of \<open>handleRecurringFoodPayment\<close>, taken when the handler is called with
  a status code other than \<open>2\<close>: it increments \<open>renewalAttempts\<close>; when the incremented count
  reaches \<open>maxRenewalAttempts\<close> the status becomes \<open>cancelled\<close> and auto-renewal is switched
  off, otherwise the status becomes \<open>pending_renewal\<close> and auto-renewal stays as it was.
  From zero attempts, \<open>maxRenewalAttempts\<close> failures in a row (at least one) end in status
  \<open>cancelled\<close> with auto-renewal off and one \<open>failed\<close> history entry appended per failure.
\<close>

lemma renewalFailed_transition:
  "renewalAttempts (renewalFailed now n a s) = renewalAttempts s + 1
   \<and> (maxRenewalAttempts s \<le> renewalAttempts s + 1 \<longrightarrow>
        status (renewalFailed now n a s) = Cancelled \<and> \<not> autoRenew (renewalFailed now n a s))
   \<and> (renewalAttempts s + 1 < maxRenewalAttempts s \<longrightarrow>
        status (renewalFailed now n a s) = Pending_renewal
        \<and> autoRenew (renewalFailed now n a s) = autoRenew s)
   \<and> (renewalAttempts s = 0 \<and> 0 < maxRenewalAttempts s \<and> length evs = maxRenewalAttempts s
        \<longrightarrow>
        status (failures evs s) = Cancelled \<and> \<not> autoRenew (failures evs s)
        \<and> (\<exists>new. renewalHistory (failures evs s) = renewalHistory s @ new
                   \<and> length new = length evs \<and> (\<forall>e\<in>set new. r_status e = Failed)))
   \<and> (recurringLookup n (subscriptions st) = Some s \<and> status_code n \<noteq> Some ''2''
        \<and> payhere_amount n = Some a \<longrightarrow>
        find (\<lambda>x. sub_id x = sub_id s) (subscriptions (handleRecurringFoodPayment z now n st))
          = Some ((renewalFailed now n a s)\<lparr>updatedAt := now\<rparr>))"
proof -
  have handler: "find (\<lambda>x. sub_id x = sub_id s)
                   (subscriptions (handleRecurringFoodPayment z now n st))
                 = Some ((renewalFailed now n a s)\<lparr>updatedAt := now\<rparr>)"
    if l: "recurringLookup n (subscriptions st) = Some s" and c: "status_code n \<noteq> Some ''2''"
      and p: "payhere_amount n = Some a"
  proof -
    have id: "sub_id (renewalFailed now n a s) = sub_id s"
      by (simp add: renewalFailed_def Let_def)
    have "subscriptions (handleRecurringFoodPayment z now n st)
            = saveSubscription now (renewalFailed now n a s) (subscriptions st)"
      using l c p by (simp add: handleRecurringFoodPayment_def)
    then show ?thesis
      by (simp add: find_saveSubscription [OF recurringLookup_member [OF l] id])
  qed
  have one: "renewalAttempts (renewalFailed now n a s) = renewalAttempts s + 1"
    "maxRenewalAttempts s \<le> renewalAttempts s + 1 \<longrightarrow>
        status (renewalFailed now n a s) = Cancelled \<and> \<not> autoRenew (renewalFailed now n a s)"
    "renewalAttempts s + 1 < maxRenewalAttempts s \<longrightarrow>
        status (renewalFailed now n a s) = Pending_renewal
        \<and> autoRenew (renewalFailed now n a s) = autoRenew s"
    by (simp_all add: renewalFailed_def Let_def)
  have many: "renewalAttempts s = 0 \<and> 0 < maxRenewalAttempts s
        \<and> length evs = maxRenewalAttempts s \<longrightarrow>
        status (failures evs s) = Cancelled \<and> \<not> autoRenew (failures evs s)
        \<and> (\<exists>new. renewalHistory (failures evs s) = renewalHistory s @ new
                   \<and> length new = length evs \<and> (\<forall>e\<in>set new. r_status e = Failed))"
    using failures_fields [of evs s] by auto
  from one many handler show ?thesis
    by blast
qed




section \<open>Reactivating an expired subscription\<close>

text \<open>
  C7: when every subscription that the request identifies has its end date at or before the
  time of the call, the reactivation answers with a failure and the store is unchanged: no
  field of a subscription is written and no log entry is appended.
\<close>

theorem reactivate_expired_rejected:
  assumes "\<forall>x\<in>set (subscriptions st). identified req x \<longrightarrow> (\<exists>e. endDate x = Some e \<and> e \<le> now)"
  shows "\<not> success (fst (reactivateAutoRenew now req st))
         \<and> snd (reactivateAutoRenew now req st) = st"
proof (cases "find (\<lambda>x. identified req x \<and> (status x = Active \<or> status x = Pending_renewal)
                          \<and> \<not> autoRenew x) (subscriptions st)")
  case None
  then show ?thesis
    by (simp add: reactivateAutoRenew_def)
next
  case (Some s)
  then have "s \<in> set (subscriptions st)" and "identified req s"
    by (auto simp: find_Some_iff)
  with assms obtain e where "endDate s = Some e" and "e \<le> now"
    by blast
  with Some show ?thesis
    by (simp add: reactivateAutoRenew_def)
qed

theorem reactivate_expired_rejected_witness:
  "reactivateAutoRenew 1710000000000 ex_by_id (empty_db\<lparr>subscriptions := [ex_disabled_sub]\<rparr>)
     = (Subscription_expired, empty_db\<lparr>subscriptions := [ex_disabled_sub]\<rparr>)
   \<and> \<not> success (fst (reactivateAutoRenew 1710000000000 ex_by_id
                       (empty_db\<lparr>subscriptions := [ex_disabled_sub]\<rparr>)))
   \<and> snd (reactivateAutoRenew 1710000000000 ex_by_id
            (empty_db\<lparr>subscriptions := [ex_disabled_sub]\<rparr>))
       = empty_db\<lparr>subscriptions := [ex_disabled_sub]\<rparr>"
proof -
  have hyp: "\<forall>x\<in>set (subscriptions (empty_db\<lparr>subscriptions := [ex_disabled_sub]\<rparr>)).
               identified ex_by_id x \<longrightarrow> (\<exists>e. endDate x = Some e \<and> e \<le> 1710000000000)"
    by (simp add: ex_disabled_sub_def ex_sub_def)
  have run: "reactivateAutoRenew 1710000000000 ex_by_id
               (empty_db\<lparr>subscriptions := [ex_disabled_sub]\<rparr>)
             = (Subscription_expired, empty_db\<lparr>subscriptions := [ex_disabled_sub]\<rparr>)"
    by (simp add: reactivateAutoRenew_def identified_def ex_by_id_def ex_disabled_sub_def
        ex_sub_def empty_db_def)
  from reactivate_expired_rejected [OF hyp] run show ?thesis
    by simp
qed

text \<open>Before the end date, the same request reactivates the subscription.\<close>

lemma reactivate_example:
  "fst (reactivateAutoRenew 1705316400000 ex_by_id
          (empty_db\<lparr>subscriptions := [ex_disabled_sub]\<rparr>)) = Reactivated_ok
   \<and> map (\<lambda>s. (autoRenew s, status s, renewalAttempts s))
        (subscriptions (snd (reactivateAutoRenew 1705316400000 ex_by_id
                               (empty_db\<lparr>subscriptions := [ex_disabled_sub]\<rparr>))))
       = [(True, Active, 0)]
   \<and> map action (logs (snd (reactivateAutoRenew 1705316400000 ex_by_id
                              (empty_db\<lparr>subscriptions := [ex_disabled_sub]\<rparr>))))
       = [Reactivated]"
  by (simp add: reactivateAutoRenew_def saveSubscription_def identified_def ex_by_id_def
      ex_disabled_sub_def ex_sub_def empty_db_def)


section \<open>Cart notifications\<close>

lemma find_saveOrder:
  "find P os = Some order \<Longrightarrow> P order' \<Longrightarrow> co_id order' = co_id order \<Longrightarrow>
   find P (saveOrder order' os) = Some order'"
  by (induction os) (auto simp: saveOrder_def split: if_splits)

text \<open>
  C9: a cart notification for a gateway order id that no order has changes nothing. When
  the order exists, a success (status code \<open>2\<close>) sets its payment status to \<open>completed\<close>, its
  order status to \<open>confirmed\<close> and records the gateway payment id; any other status code
  sets the payment status to \<open>failed\<close> and the order status to \<open>cancelled\<close>. No order is
  created, and subscriptions and logs are not touched.
\<close>

theorem cart_notification:
  "(find (\<lambda>x. Some (co_payhereOrderId x) = order_id n) (orders st) = None \<longrightarrow>
      handleCartPaymentNotification now n st = st)
   \<and> (\<forall>order. find (\<lambda>x. Some (co_payhereOrderId x) = order_id n) (orders st) = Some order \<longrightarrow>
        (\<exists>order'. find (\<lambda>x. Some (co_payhereOrderId x) = order_id n)
                     (orders (handleCartPaymentNotification now n st)) = Some order'
           \<and> (status_code n = Some ''2'' \<longrightarrow>
                paymentStatus order' = Pay_completed \<and> orderStatus order' = Ord_confirmed
                \<and> co_payherePaymentId order' = payment_id n)
           \<and> (status_code n \<noteq> Some ''2'' \<longrightarrow>
                paymentStatus order' = Pay_failed \<and> orderStatus order' = Ord_cancelled)))
   \<and> length (orders (handleCartPaymentNotification now n st)) = length (orders st)
   \<and> subscriptions (handleCartPaymentNotification now n st) = subscriptions st
   \<and> logs (handleCartPaymentNotification now n st) = logs st"
proof -
  let ?P = "\<lambda>x. Some (co_payhereOrderId x) = order_id n"
  have absent: "find ?P (orders st) = None \<longrightarrow> handleCartPaymentNotification now n st = st"
    by (simp add: handleCartPaymentNotification_def)
  have present: "\<exists>order'. find ?P (orders (handleCartPaymentNotification now n st)) = Some order'
           \<and> (status_code n = Some ''2'' \<longrightarrow>
                paymentStatus order' = Pay_completed \<and> orderStatus order' = Ord_confirmed
                \<and> co_payherePaymentId order' = payment_id n)
           \<and> (status_code n \<noteq> Some ''2'' \<longrightarrow>
                paymentStatus order' = Pay_failed \<and> orderStatus order' = Ord_cancelled)"
    if f: "find ?P (orders st) = Some order" for order
  proof -
    from f have P: "?P order"
      by (auto simp: find_Some_iff)
    show ?thesis
    proof (cases "status_code n = Some ''2''")
      case True
      let ?o = "order\<lparr>paymentStatus := Pay_completed, orderStatus := Ord_confirmed,
                      co_payherePaymentId := payment_id n, co_updatedAt := now\<rparr>"
      have "find ?P (saveOrder ?o (orders st)) = Some ?o"
        using P by (intro find_saveOrder [OF f]) simp_all
      with f True show ?thesis
        by (simp add: handleCartPaymentNotification_def)
    next
      case False
      let ?o = "order\<lparr>paymentStatus := Pay_failed, orderStatus := Ord_cancelled,
                      co_updatedAt := now\<rparr>"
      have "find ?P (saveOrder ?o (orders st)) = Some ?o"
        using P by (intro find_saveOrder [OF f]) simp_all
      with f False show ?thesis
        by (simp add: handleCartPaymentNotification_def)
    qed
  qed
  have rest: "length (orders (handleCartPaymentNotification now n st)) = length (orders st)"
    "subscriptions (handleCartPaymentNotification now n st) = subscriptions st"
    "logs (handleCartPaymentNotification now n st) = logs st"
    by (simp_all add: handleCartPaymentNotification_def saveOrder_def split: option.splits)
  from absent present rest show ?thesis
    by blast
qed


theorem cart_notification_witness:
  "handleCartPaymentNotification 1705316400000 (ex_notification\<lparr>order_id := Some ''CART_9''\<rparr>)
     ex_cart_db = ex_cart_db
   \<and> (\<exists>order'. find (\<lambda>x. Some (co_payhereOrderId x) = Some ''CART_1'')
                  (orders (handleCartPaymentNotification 1705316400000 ex_notification
                             ex_cart_db)) = Some order'
         \<and> paymentStatus order' = Pay_completed \<and> orderStatus order' = Ord_confirmed
         \<and> co_payherePaymentId order' = Some ''320025000000'')
   \<and> (\<exists>order'. find (\<lambda>x. Some (co_payhereOrderId x) = Some ''CART_1'')
                  (orders (handleCartPaymentNotification 1705316400000
                             (ex_notification\<lparr>status_code := Some ''-2''\<rparr>) ex_cart_db))
                = Some order'
         \<and> paymentStatus order' = Pay_failed \<and> orderStatus order' = Ord_cancelled)"
proof -
  have n: "order_id ex_notification = Some ''CART_1''" "status_code ex_notification = Some ''2''"
    "payment_id ex_notification = Some ''320025000000''"
    by (simp_all add: ex_notification_def)
  have absent: "find (\<lambda>x. Some (co_payhereOrderId x) = Some ''CART_9'') (orders ex_cart_db) = None"
    and present: "find (\<lambda>x. Some (co_payhereOrderId x) = Some ''CART_1'') (orders ex_cart_db)
                    = Some ex_order"
    by (simp_all add: ex_cart_db_def ex_order_def)
  from cart_notification [where n = "ex_notification\<lparr>order_id := Some ''CART_9''\<rparr>"
         and st = ex_cart_db and now = 1705316400000] absent
  have a: "handleCartPaymentNotification 1705316400000
             (ex_notification\<lparr>order_id := Some ''CART_9''\<rparr>) ex_cart_db = ex_cart_db"
    by simp
  from cart_notification [where n = ex_notification and st = ex_cart_db
         and now = 1705316400000] present
  have b: "\<exists>order'. find (\<lambda>x. Some (co_payhereOrderId x) = Some ''CART_1'')
                  (orders (handleCartPaymentNotification 1705316400000 ex_notification
                             ex_cart_db)) = Some order'
         \<and> paymentStatus order' = Pay_completed \<and> orderStatus order' = Ord_confirmed
         \<and> co_payherePaymentId order' = Some ''320025000000''"
    by (simp add: n)
  from cart_notification [where n = "ex_notification\<lparr>status_code := Some ''-2''\<rparr>"
         and st = ex_cart_db and now = 1705316400000] present
  have c: "\<exists>order'. find (\<lambda>x. Some (co_payhereOrderId x) = Some ''CART_1'')
                  (orders (handleCartPaymentNotification 1705316400000
                             (ex_notification\<lparr>status_code := Some ''-2''\<rparr>) ex_cart_db))
                = Some order'
         \<and> paymentStatus order' = Pay_failed \<and> orderStatus order' = Ord_cancelled"
    by (simp add: n)
  from a b c show ?thesis
    by blast
qed

section \<open>Required fields of a notification\<close>

lemma ex_verify:
  "verifyPayHereHash (ex_notification\<lparr>payment_id := p\<rparr>) ''secret'' = Some True"
proof -
  have amt: "toFixed2 250000 = ''2500.00''"
    by (simp add: string_eval)
  have hs: "toUpperCase (md5_hex ''secret'') = ''5EBE2294ECD0E0F08EAB7690D2A6EE69''"
    by (simp add: md5_hex_secret toUpperCase_def upper_char_def)
  show ?thesis
    by (simp add: verifyPayHereHash_unfold ex_notification_def tmpl_def amt hs md5_hex_verify)
qed

text \<open>
  C3, as the claim states it, fails: a notification without \<open>payment_id\<close>, authentic
  otherwise, is answered with 200 and the order it names is updated.
\<close>

theorem missing_payment_id_counterexample:
  "payment_id (ex_notification\<lparr>payment_id := None\<rparr>) = None
   \<and> payhereNotify ex_cfg 1705316400000 (ex_notification\<lparr>payment_id := None\<rparr>) ex_cart_db
       = ((200, ''OK''),
          ex_cart_db\<lparr>orders := [ex_order\<lparr>paymentStatus := Pay_completed,
                                          orderStatus := Ord_confirmed,
                                          co_updatedAt := 1705316400000\<rparr>]\<rparr>)
   \<and> ex_cart_db\<lparr>orders := [ex_order\<lparr>paymentStatus := Pay_completed,
                                      orderStatus := Ord_confirmed,
                                      co_updatedAt := 1705316400000\<rparr>]\<rparr> \<noteq> ex_cart_db"
proof -
  have v: "verifyPayHereHash (ex_notification\<lparr>payment_id := None\<rparr>) (cfg_merchantSecret ex_cfg)
             = Some True"
    by (simp add: ex_cfg_def ex_verify)
  have r: "route (cfg_zone ex_cfg) 1705316400000 (ex_notification\<lparr>payment_id := None\<rparr>) ex_cart_db
             = ex_cart_db\<lparr>orders := [ex_order\<lparr>paymentStatus := Pay_completed,
                                               orderStatus := Ord_confirmed,
                                               co_updatedAt := 1705316400000\<rparr>]\<rparr>"
    by (simp add: route_def handleCartPaymentNotification_def saveOrder_def ex_notification_def
        ex_cart_db_def ex_order_def)
  have checks: "truthy (merchant_id (ex_notification\<lparr>payment_id := None\<rparr>))"
    "truthy (order_id (ex_notification\<lparr>payment_id := None\<rparr>))"
    "payhere_amount (ex_notification\<lparr>payment_id := None\<rparr>) \<noteq> None"
    "truthy (payhere_currency (ex_notification\<lparr>payment_id := None\<rparr>))"
    "truthy (status_code (ex_notification\<lparr>payment_id := None\<rparr>))"
    "truthy (md5sig (ex_notification\<lparr>payment_id := None\<rparr>))"
    "trim (tmpl (merchant_id (ex_notification\<lparr>payment_id := None\<rparr>))) = trim (cfg_merchantId ex_cfg)"
    by (simp_all add: ex_notification_def ex_cfg_def truthy_def tmpl_def)
  have p: "payhereNotify ex_cfg 1705316400000 (ex_notification\<lparr>payment_id := None\<rparr>) ex_cart_db
          = ((200, ''OK''), route (cfg_zone ex_cfg) 1705316400000
                               (ex_notification\<lparr>payment_id := None\<rparr>) ex_cart_db)"
    unfolding payhereNotify_def using checks v by simp
  have changed: "ex_cart_db\<lparr>orders := [ex_order\<lparr>paymentStatus := Pay_completed,
                                               orderStatus := Ord_confirmed,
                                               co_updatedAt := 1705316400000\<rparr>]\<rparr> \<noteq> ex_cart_db"
    by (simp add: ex_cart_db_def ex_order_def)
  show ?thesis
    using changed by (simp add: p r)
qed

text \<open>
  C3, amended: a notification in which one of \<open>merchant_id\<close>, \<open>order_id\<close>,
  \<open>payhere_amount\<close>, \<open>payhere_currency\<close>, \<open>status_code\<close>, \<open>md5sig\<close> is absent or empty is
  answered with 400 and the store is unchanged. \<open>payment_id\<close> is not a required field: the
  answer does not depend on it.
\<close>

theorem missing_required_field_rejected:
  "(\<not> truthy (merchant_id n) \<or> \<not> truthy (order_id n) \<or> payhere_amount n = None
    \<or> \<not> truthy (payhere_currency n) \<or> \<not> truthy (status_code n) \<or> \<not> truthy (md5sig n)
    \<longrightarrow> payhereNotify cfg now n st = ((400, ''Missing required fields''), st))
   \<and> fst (payhereNotify cfg now (n\<lparr>payment_id := p\<rparr>) st) = fst (payhereNotify cfg now n st)"
  by (simp add: payhereNotify_def verifyPayHereHash_unfold split: option.splits bool.splits)

theorem missing_required_field_rejected_witness:
  "\<not> truthy (md5sig (ex_notification\<lparr>md5sig := None\<rparr>))
   \<and> payhereNotify ex_cfg 1705316400000 (ex_notification\<lparr>md5sig := None\<rparr>) ex_cart_db
       = ((400, ''Missing required fields''), ex_cart_db)"
  using missing_required_field_rejected
          [where n = "ex_notification\<lparr>md5sig := None\<rparr>" and cfg = ex_cfg
             and now = 1705316400000 and st = ex_cart_db]
  by (simp add: truthy_def)

section \<open>Reaching the bound on the renewal attempts\<close>

text \<open>
  Both failure transitions cancel the subscription and switch auto-renewal off when the
  attempts reach the maximum, and the invariant holds after every transition of the renewal
  state machine and of the auto-renewal endpoints, for a positive maximum.
\<close>

lemma threshold_forces_cancellation:
  "maxRenewalAttempts s \<le> renewalAttempts s + 1 \<Longrightarrow>
     status (renewalFailed now n a s) = Cancelled \<and> \<not> autoRenew (renewalFailed now n a s)
     \<and> status (paymentFailed now n s) = Cancelled \<and> \<not> autoRenew (paymentFailed now n s)"
  by (simp add: renewalFailed_def paymentFailed_def Let_def)

lemma attemptsBounded_transitions:
  "attemptsBounded (renewalFailed now n a s)"
  "attemptsBounded (paymentFailed now n s)"
  "0 < maxRenewalAttempts s \<Longrightarrow> attemptsBounded (renewalSucceeded z now n a d s)"
  "attemptsBounded s \<Longrightarrow> attemptsBounded (cancelUpdate now req s' s)"
  "0 < maxRenewalAttempts s \<Longrightarrow>
     attemptsBounded (s\<lparr>autoRenew := True, status := Active, renewalAttempts := 0,
                        paymentFailure := False, nextBillingDate := b\<rparr>)"
  by (simp_all add: attemptsBounded_def renewalFailed_def paymentFailed_def
      renewalSucceeded_def cancelUpdate_def Let_def)

lemma ex_subscription_notifications_accepted:
  "payhereNotify ex_cfg now ex_initial_notification st
     = ((200, ''OK''), route (cfg_zone ex_cfg) now ex_initial_notification st)"
  "payhereNotify ex_cfg now ex_failed_notification st
     = ((200, ''OK''), route (cfg_zone ex_cfg) now ex_failed_notification st)"
proof -
  have amt: "toFixed2 250000 = ''2500.00''"
    by (simp add: string_eval)
  have hs: "toUpperCase (md5_hex ''secret'') = ''5EBE2294ECD0E0F08EAB7690D2A6EE69''"
    by (simp add: md5_hex_secret toUpperCase_def upper_char_def)
  have up: "toUpperCase ''472fdf438a9ae8daf95b911b4188d69e'' = ''472FDF438A9AE8DAF95B911B4188D69E''"
    "toUpperCase ''472FDF438A9AE8DAF95B911B4188D69E'' = ''472FDF438A9AE8DAF95B911B4188D69E''"
    "toUpperCase ''72e521a6e811c94af09bfa3f45a8411a'' = ''72E521A6E811C94AF09BFA3F45A8411A''"
    "toUpperCase ''72E521A6E811C94AF09BFA3F45A8411A'' = ''72E521A6E811C94AF09BFA3F45A8411A''"
    by (simp_all add: toUpperCase_def upper_char_def)
  have v: "verifyPayHereHash ex_initial_notification (cfg_merchantSecret ex_cfg) = Some True"
    "verifyPayHereHash ex_failed_notification (cfg_merchantSecret ex_cfg) = Some True"
    by (simp_all add: verifyPayHereHash_unfold ex_initial_notification_def
        ex_failed_notification_def ex_notification_def ex_cfg_def tmpl_def amt hs
        md5_hex_verify_initial md5_hex_verify_failed up)
  have checks: "truthy (merchant_id ex_initial_notification)"
    "truthy (order_id ex_initial_notification)"
    "payhere_amount ex_initial_notification \<noteq> None"
    "truthy (payhere_currency ex_initial_notification)"
    "truthy (status_code ex_initial_notification)"
    "truthy (md5sig ex_initial_notification)"
    "trim (tmpl (merchant_id ex_initial_notification)) = trim (cfg_merchantId ex_cfg)"
    "truthy (merchant_id ex_failed_notification)"
    "truthy (order_id ex_failed_notification)"
    "payhere_amount ex_failed_notification \<noteq> None"
    "truthy (payhere_currency ex_failed_notification)"
    "truthy (status_code ex_failed_notification)"
    "truthy (md5sig ex_failed_notification)"
    "trim (tmpl (merchant_id ex_failed_notification)) = trim (cfg_merchantId ex_cfg)"
    by (simp_all add: ex_initial_notification_def ex_failed_notification_def
        ex_notification_def ex_cfg_def truthy_def tmpl_def)
  show "payhereNotify ex_cfg now ex_initial_notification st
     = ((200, ''OK''), route (cfg_zone ex_cfg) now ex_initial_notification st)"
    unfolding payhereNotify_def using checks v by simp
  show "payhereNotify ex_cfg now ex_failed_notification st
     = ((200, ''OK''), route (cfg_zone ex_cfg) now ex_failed_notification st)"
    unfolding payhereNotify_def using checks v by simp
qed

text \<open>
  C8 on the code. An initial payment creates the subscription of order \<open>FOOD_1\<close>; three
  failed payments for this order bring it to three attempts, status \<open>cancelled\<close> and
  auto-renewal off. A further successful initial payment for the same order, with a
  recurring token, sets the status to \<open>active\<close> and auto-renewal on, and leaves the
  attempts at 3, the maximum: an active subscription whose attempts are not below the
  maximum. All five notifications are authentic and pass through the endpoint.
\<close>

theorem reactivated_by_initial_payment_keeps_attempts:
  "map (\<lambda>s. (status s, renewalAttempts s, maxRenewalAttempts s, autoRenew s, attemptsBounded s))
     (subscriptions (deliver ex_cfg
        [(1705312800000, ex_initial_notification),
         (1707991200000, ex_failed_notification),
         (1708077600000, ex_failed_notification),
         (1708164000000, ex_failed_notification)] empty_db))
     = [(Cancelled, 3, 3, False, True)]
   \<and> map (\<lambda>s. (status s, renewalAttempts s, maxRenewalAttempts s, autoRenew s, attemptsBounded s))
     (subscriptions (deliver ex_cfg
        [(1705312800000, ex_initial_notification),
         (1707991200000, ex_failed_notification),
         (1708077600000, ex_failed_notification),
         (1708164000000, ex_failed_notification),
         (1708250400000, ex_initial_notification)] empty_db))
     = [(Active, 3, 3, True, False)]"
  by (simp add: deliver_def ex_subscription_notifications_accepted)
     (simp add: route_def isFood_def handleInitialFoodPaymentWithRecurring_def
      handleFailedFoodPayment_def paymentFailed_def saveSubscription_def newId_def
      attemptsBounded_def ex_initial_notification_def ex_failed_notification_def
      ex_notification_def empty_db_def string_eval Let_def cong: let_weak_cong)

section \<open>Failed recurring payments at the endpoint\<close>

text \<open>
  The endpoint calls \<open>handleRecurringFoodPayment\<close> only for status code \<open>2\<close>. A notification
  with another status code goes to \<open>handleFailedFoodPayment\<close> when it is a food
  subscription's, and to the cart handler otherwise; so the failure branch of
  \<open>handleRecurringFoodPayment\<close> never runs, and no notification gives a subscription the
  status \<open>pending_renewal\<close>.
\<close>

lemma saveSubscription_member:
  "x \<in> set (saveSubscription now s subs) \<Longrightarrow> x = s\<lparr>updatedAt := now\<rparr> \<or> x \<in> set subs"
  by (auto simp: saveSubscription_def split: if_splits)

lemma route_failure:
  "status_code n \<noteq> Some ''2'' \<Longrightarrow>
   route z now n st = (if isFood n then handleFailedFoodPayment now n st
                       else handleCartPaymentNotification now n st)"
  by (simp add: route_def)

lemma handleCartPaymentNotification_subscriptions:
  "subscriptions (handleCartPaymentNotification now n st) = subscriptions st"
  by (simp add: handleCartPaymentNotification_def split: option.splits)

lemma handleFailedFoodPayment_not_pending:
  assumes "x \<in> set (subscriptions (handleFailedFoodPayment now n st))"
    and "status x = Pending_renewal"
  shows "x \<in> set (subscriptions st)"
proof (cases "find (\<lambda>x. payhereOrderId x = order_id n) (subscriptions st)")
  case None
  with assms show ?thesis
    by (simp add: handleFailedFoodPayment_def)
next
  case (Some s)
  with assms(1) have "x = (paymentFailed now n s)\<lparr>updatedAt := now\<rparr> \<or> x \<in> set (subscriptions st)"
    using saveSubscription_member [of x now "paymentFailed now n s" "subscriptions st"]
    by (simp add: handleFailedFoodPayment_def)
  moreover have "status ((paymentFailed now n s)\<lparr>updatedAt := now\<rparr>) \<noteq> Pending_renewal"
    by (simp add: paymentFailed_def Let_def)
  ultimately show ?thesis
    using assms(2) by auto
qed

lemma handleInitialFoodPaymentWithRecurring_not_pending:
  assumes "x \<in> set (subscriptions (handleInitialFoodPaymentWithRecurring z now n st))"
    and "status x = Pending_renewal"
  shows "x \<in> set (subscriptions st)"
proof (cases "find (\<lambda>x. payhereOrderId x = order_id n) (subscriptions st)")
  case None
  with assms show ?thesis
    by (cases "payhere_amount n")
       (auto simp: handleInitialFoodPaymentWithRecurring_def Let_def)
next
  case (Some s)
  show ?thesis
  proof (cases "custom_2 n = Some ''food_monthly_recurring'' \<and> truthy (recurring_token n)")
    case False
    with Some assms(1) show ?thesis
      by (auto simp: handleInitialFoodPaymentWithRecurring_def Let_def)
  next
    case True
    let ?s' = "s\<lparr>payhereRecurringToken := recurring_token n, payherePaymentId := payment_id n,
                  autoRenew := True, status := Active,
                  nextBillingDate := Some (case next_occurrence_date n of
                                             Some d \<Rightarrow> d | None \<Rightarrow> now + thirtyDays)\<rparr>"
    from True Some assms(1) have "x \<in> set (saveSubscription now ?s' (subscriptions st))"
      by (simp add: handleInitialFoodPaymentWithRecurring_def Let_def)
    then have "x = ?s'\<lparr>updatedAt := now\<rparr> \<or> x \<in> set (subscriptions st)"
      by (rule saveSubscription_member)
    with assms(2) show ?thesis
      by auto
  qed
qed

lemma handleRecurringFoodPayment_success_not_pending:
  assumes "x \<in> set (subscriptions (handleRecurringFoodPayment z now n st))"
    and "status_code n = Some ''2''"
    and "status x = Pending_renewal"
  shows "x \<in> set (subscriptions st)"
proof (cases "recurringLookup n (subscriptions st)")
  case None
  with assms show ?thesis
    by (simp add: handleRecurringFoodPayment_def)
next
  case (Some s)
  show ?thesis
  proof (cases "payhere_amount n")
    case None
    with Some assms show ?thesis
      by (simp add: handleRecurringFoodPayment_def)
  next
    case a: (Some a)
    show ?thesis
    proof (cases "endDate s")
      case None
      with Some a assms show ?thesis
        by (simp add: handleRecurringFoodPayment_def)
    next
      case d: (Some d)
      from Some a d assms(1,2)
      have "x \<in> set (saveSubscription now (renewalSucceeded z now n a d s) (subscriptions st))"
        by (simp add: handleRecurringFoodPayment_def)
      then have "x = (renewalSucceeded z now n a d s)\<lparr>updatedAt := now\<rparr>
                 \<or> x \<in> set (subscriptions st)"
        by (rule saveSubscription_member)
      moreover have "status ((renewalSucceeded z now n a d s)\<lparr>updatedAt := now\<rparr>) = Active"
        by (simp add: renewalSucceeded_def Let_def)
      ultimately show ?thesis
        using assms(3) by auto
    qed
  qed
qed

lemma route_never_pending_renewal:
  assumes "x \<in> set (subscriptions (route z now n st))" and "status x = Pending_renewal"
  shows "x \<in> set (subscriptions st)"
  using assms handleFailedFoodPayment_not_pending [of x now n st]
    handleInitialFoodPaymentWithRecurring_not_pending [of x z now n st]
    handleRecurringFoodPayment_success_not_pending [of x z now n st]
  by (auto simp: route_def handleCartPaymentNotification_subscriptions split: if_splits)

lemma payhereNotify_never_pending_renewal:
  assumes "x \<in> set (subscriptions (snd (payhereNotify cfg now n st)))"
    and "status x = Pending_renewal"
  shows "x \<in> set (subscriptions st)"
proof (cases "fst (payhereNotify cfg now n st) = (200, ''OK'')")
  case True
  then have "snd (payhereNotify cfg now n st) = route (cfg_zone cfg) now n st"
    by (auto simp: payhereNotify_def split: if_splits option.splits bool.splits)
  with assms route_never_pending_renewal show ?thesis
    by simp
next
  case False
  then have "snd (payhereNotify cfg now n st) = st"
    by (auto simp: payhereNotify_def split: if_splits option.splits bool.splits)
  with assms show ?thesis
    by simp
qed

lemma deliver_never_pending_renewal:
  "x \<in> set (subscriptions (deliver cfg ns st)) \<Longrightarrow> status x = Pending_renewal \<Longrightarrow>
   x \<in> set (subscriptions st)"
proof (induction ns arbitrary: st)
  case Nil
  then show ?case
    by (simp add: deliver_def)
next
  case (Cons p ns)
  obtain now n where p: "p = (now, n)"
    by (cases p) auto
  have "deliver cfg (p # ns) st = deliver cfg ns (snd (payhereNotify cfg now n st))"
    by (simp add: deliver_def p)
  with Cons show ?case
    using payhereNotify_never_pending_renewal by metis
qed

lemma ex_failed_recurring_accepted:
  "payhereNotify ex_cfg now ex_failed_recurring_notification st
     = ((200, ''OK''), route (cfg_zone ex_cfg) now ex_failed_recurring_notification st)"
proof -
  have amt: "toFixed2 250000 = ''2500.00''"
    by (simp add: string_eval)
  have hs: "toUpperCase (md5_hex ''secret'') = ''5EBE2294ECD0E0F08EAB7690D2A6EE69''"
    by (simp add: md5_hex_secret toUpperCase_def upper_char_def)
  have up:
    "toUpperCase ''72e521a6e811c94af09bfa3f45a8411a'' = ''72E521A6E811C94AF09BFA3F45A8411A''"
    "toUpperCase ''72E521A6E811C94AF09BFA3F45A8411A'' = ''72E521A6E811C94AF09BFA3F45A8411A''"
    by (simp_all add: toUpperCase_def upper_char_def)
  have v: "verifyPayHereHash ex_failed_recurring_notification (cfg_merchantSecret ex_cfg)
             = Some True"
    by (simp add: verifyPayHereHash_unfold ex_failed_recurring_notification_def
        ex_initial_notification_def ex_failed_notification_def ex_notification_def ex_cfg_def
        tmpl_def amt hs md5_hex_verify_failed up)
  have checks: "truthy (merchant_id ex_failed_recurring_notification)"
    "truthy (order_id ex_failed_recurring_notification)"
    "payhere_amount ex_failed_recurring_notification \<noteq> None"
    "truthy (payhere_currency ex_failed_recurring_notification)"
    "truthy (status_code ex_failed_recurring_notification)"
    "truthy (md5sig ex_failed_recurring_notification)"
    "trim (tmpl (merchant_id ex_failed_recurring_notification)) = trim (cfg_merchantId ex_cfg)"
    by (simp_all add: ex_failed_recurring_notification_def ex_initial_notification_def
        ex_failed_notification_def ex_notification_def ex_cfg_def truthy_def tmpl_def)
  show ?thesis
    unfolding payhereNotify_def using checks v by simp
qed

text \<open>
  C5 on the code. The subscription of order \<open>FOOD_1\<close> is active with auto-renewal on, no
  failed attempt and a maximum of 3. The gateway's authentic notification of a failed
  recurring charge (status code \<open>-2\<close>, event type \<open>SUBSCRIPTION_PAYMENT\<close>, the subscription's
  token) increments the attempts to 1 and appends one \<open>failed\<close> history entry, but the status
  becomes \<open>payment_failed\<close>, not \<open>pending_renewal\<close>: the endpoint hands the notification to
  \<open>handleFailedFoodPayment\<close>. The failure branch of \<open>handleRecurringFoodPayment\<close>, called on
  the same notification and store, is the one that gives \<open>pending_renewal\<close>.
\<close>

theorem failed_recurring_payment_is_not_pending_renewal:
  "map (\<lambda>s. (status s, renewalAttempts s, maxRenewalAttempts s, autoRenew s,
             map r_status (renewalHistory s)))
     (subscriptions (deliver ex_cfg [(1707991200000, ex_failed_recurring_notification)]
                       (empty_db\<lparr>subscriptions := [ex_sub]\<rparr>)))
     = [(Payment_failed, 1, 3, True, [Failed])]
   \<and> map (\<lambda>s. (status s, renewalAttempts s, maxRenewalAttempts s, autoRenew s,
               map r_status (renewalHistory s)))
     (subscriptions (handleRecurringFoodPayment (cfg_zone ex_cfg) 1707991200000
                       ex_failed_recurring_notification (empty_db\<lparr>subscriptions := [ex_sub]\<rparr>)))
     = [(Pending_renewal, 1, 3, True, [Failed])]"
proof -
  have l: "recurringLookup ex_failed_recurring_notification
             (subscriptions (empty_db\<lparr>subscriptions := [ex_sub]\<rparr>)) = Some ex_sub"
    by (simp add: recurringLookup_def findLatest_def recurringCandidate_def ex_sub_def
        ex_failed_recurring_notification_def ex_failed_notification_def
        ex_initial_notification_def ex_notification_def empty_db_def string_eval)
  have direct: "map (\<lambda>s. (status s, renewalAttempts s, maxRenewalAttempts s, autoRenew s,
               map r_status (renewalHistory s)))
     (subscriptions (handleRecurringFoodPayment (cfg_zone ex_cfg) 1707991200000
                       ex_failed_recurring_notification (empty_db\<lparr>subscriptions := [ex_sub]\<rparr>)))
     = [(Pending_renewal, 1, 3, True, [Failed])]"
    using l
    by (simp add: handleRecurringFoodPayment_def renewalFailed_def saveSubscription_def
        ex_failed_recurring_notification_def ex_failed_notification_def
        ex_initial_notification_def ex_notification_def ex_sub_def empty_db_def Let_def
        cong: let_weak_cong)
  have endpoint: "map (\<lambda>s. (status s, renewalAttempts s, maxRenewalAttempts s, autoRenew s,
             map r_status (renewalHistory s)))
     (subscriptions (deliver ex_cfg [(1707991200000, ex_failed_recurring_notification)]
                       (empty_db\<lparr>subscriptions := [ex_sub]\<rparr>)))
     = [(Payment_failed, 1, 3, True, [Failed])]"
    by (simp add: deliver_def ex_failed_recurring_accepted)
       (simp add: route_def isFood_def handleFailedFoodPayment_def paymentFailed_def
        saveSubscription_def ex_failed_recurring_notification_def ex_failed_notification_def
        ex_initial_notification_def ex_notification_def ex_sub_def empty_db_def string_eval
        Let_def cong: let_weak_cong)
  from endpoint direct show ?thesis
    by (rule conjI)
qed

end
